theory Spec2Isabelle
  imports Main
begin

section \<open>Instants, zones and civil days\<close>

text \<open>
  The schedule providers of \<^verbatim>\<open>pkg/schedule\<close> work on Go's \<^verbatim>\<open>time.Time\<close>: an instant
  together with the location it is displayed in. An instant is the number of nanoseconds
  since the Unix epoch. A location is the offset (seconds east of UTC) in force before its
  first transition, and its transitions in ascending order, each the Unix second from
  which a new offset applies. \<^verbatim>\<open>time.UTC\<close> and a fixed zone have no transition.

  A civil date is represented by its day number: the days since 1970-01-01 in the
  proleptic Gregorian calendar. \<^verbatim>\<open>t.Year(), t.Month(), t.Day()\<close> and
  \<^verbatim>\<open>t.Format("2006-01-02")\<close> read the civil date of \<open>t\<close> in its location; they carry
  the same information as the day number, and \<^verbatim>\<open>time.Date(y, m, d, ...)\<close> maps the date
  back to it.
\<close>

datatype Weekday = Sunday | Monday | Tuesday | Wednesday | Thursday | Friday | Saturday

record Location =
  zone0 :: int
  tx :: "(int \<times> int) list"

record Time =
  unixNano :: int
  loc :: Location

definition UTC :: Location where
  "UTC = \<lparr>zone0 = 0, tx = []\<rparr>"

definition FixedZone :: "int \<Rightarrow> Location" where
  "FixedZone offset = \<lparr>zone0 = offset, tx = []\<rparr>"

definition alpha :: int where
  "alpha = - (2 ^ 63)"

definition omega :: int where
  "omega = 2 ^ 63 - 1"

text \<open>
  \<^verbatim>\<open>Location.lookup(sec)\<close>: the offset in force at the Unix second \<open>sec\<close> and the range
  \<open>[start, end)\<close> of seconds over which it is in force. Go searches the sorted transitions
  by bisection; the scan below finds the same entry.
\<close>

fun lookup_tx :: "(int \<times> int) list \<Rightarrow> int \<Rightarrow> int \<Rightarrow> int \<Rightarrow> int \<times> int \<times> int" where
  "lookup_tx [] sec offset zstart = (offset, zstart, omega)"
| "lookup_tx ((w, offset') # rest) sec offset zstart =
     (if sec < w then (offset, zstart, w) else lookup_tx rest sec offset' w)"

definition Location_lookup :: "Location \<Rightarrow> int \<Rightarrow> int \<times> int \<times> int" where
  "Location_lookup l sec = lookup_tx (tx l) sec (zone0 l) alpha"

definition Unix :: "Time \<Rightarrow> int" where
  "Unix t = unixNano t div 1000000000"

definition Nanosecond :: "Time \<Rightarrow> int" where
  "Nanosecond t = unixNano t mod 1000000000"

text \<open>The seconds of the wall clock of \<open>t\<close> in its location, counted from 1970-01-01T00:00.\<close>

definition civilSec :: "Time \<Rightarrow> int" where
  "civilSec t = Unix t + fst (Location_lookup (loc t) (Unix t))"

definition civilDay :: "Time \<Rightarrow> int" where
  "civilDay t = civilSec t div 86400"

fun weekday_of_int :: "int \<Rightarrow> Weekday" where
  "weekday_of_int n =
     (if n = 0 then Sunday else if n = 1 then Monday else if n = 2 then Tuesday
      else if n = 3 then Wednesday else if n = 4 then Thursday
      else if n = 5 then Friday else Saturday)"

text \<open>\<^verbatim>\<open>t.Weekday()\<close>; 1970-01-01 was a Thursday.\<close>

definition Time_Weekday :: "Time \<Rightarrow> Weekday" where
  "Time_Weekday t = weekday_of_int ((civilDay t + 4) mod 7)"

text \<open>\<^verbatim>\<open>t.In(loc)\<close>: the same instant, displayed in \<open>loc\<close>.\<close>

definition In :: "Time \<Rightarrow> Location \<Rightarrow> Time" where
  "In t l = t\<lparr>loc := l\<rparr>"

definition After :: "Time \<Rightarrow> Time \<Rightarrow> bool" where
  "After t u = (unixNano u < unixNano t)"

definition Before :: "Time \<Rightarrow> Time \<Rightarrow> bool" where
  "Before t u = (unixNano t < unixNano u)"

text \<open>
  \<^verbatim>\<open>time.Date(y, m, d, hour, min, sec, nsec, loc)\<close>, with the date \<open>y, m, d\<close> given by
  its day number. Go first reads the wall clock as if it were UTC, looks the zone up
  there, and looks it up once more when the instant so found lies outside the range of
  that zone; a wall-clock time that a transition skips or repeats is resolved by this
  rule.
\<close>

definition Date :: "int \<Rightarrow> int \<Rightarrow> int \<Rightarrow> int \<Rightarrow> int \<Rightarrow> Location \<Rightarrow> Time" where
  "Date day hour minute sec nsec l =
     (let unix = day * 86400 + hour * 3600 + minute * 60 + sec;
          (offset, zstart, zend) = Location_lookup l unix;
          unix' =
            (if offset \<noteq> 0
             then (let utc = unix - offset;
                       offset' = (if utc < zstart \<or> zend \<le> utc
                                  then fst (Location_lookup l utc) else offset)
                   in unix - offset')
             else unix)
      in \<lparr>unixNano = unix' * 1000000000 + nsec, loc = l\<rparr>)"

text \<open>
  \<^verbatim>\<open>t.AddDate(0, 0, days)\<close>: the same wall clock \<open>days\<close> civil days later, built by
  \<^verbatim>\<open>Date\<close> from the date and clock of \<open>t\<close>.
\<close>

definition AddDate_days :: "Time \<Rightarrow> int \<Rightarrow> Time" where
  "AddDate_days t days =
     Date (civilDay t + days) ((civilSec t mod 86400) div 3600)
       (((civilSec t mod 86400) mod 3600) div 60) ((civilSec t mod 86400) mod 60)
       (Nanosecond t) (loc t)"

text \<open>The day number of a Gregorian date, to write dates down.\<close>

definition days_from_civil :: "int \<Rightarrow> int \<Rightarrow> int \<Rightarrow> int" where
  "days_from_civil y m d =
     (let y' = (if m \<le> 2 then y - 1 else y);
          era = y' div 400;
          yoe = y' - era * 400;
          doy = (153 * (if m > 2 then m - 3 else m + 9) + 2) div 5 + d - 1;
          doe = yoe * 365 + yoe div 4 - yoe div 100 + doy
      in era * 146097 + doe - 719468)"

section \<open>The static work-time provider\<close>

datatype sched_error =
  UnknownTimeZone string
| TimeParseError string
| FetchError string
| ReadError string
| CalendarParseError string
| ListEventsError string

record StaticProvider =
  StartTime :: string
  EndTime :: string
  TimeZone :: string
  WorkDays :: "Weekday \<Rightarrow> bool option"

definition defaultWorkDays :: "Weekday \<Rightarrow> bool option" where
  "defaultWorkDays =
     [Monday \<mapsto> True, Tuesday \<mapsto> True, Wednesday \<mapsto> True, Thursday \<mapsto> True,
      Friday \<mapsto> True]"

definition NewStaticProvider ::
  "string \<Rightarrow> string \<Rightarrow> string \<Rightarrow> (Weekday \<Rightarrow> bool option) option \<Rightarrow> StaticProvider" where
  "NewStaticProvider startTime endTime timeZone workDays =
     \<lparr>StartTime = startTime, EndTime = endTime, TimeZone = timeZone,
      WorkDays = (case workDays of None \<Rightarrow> defaultWorkDays | Some wd \<Rightarrow> wd)\<rparr>"

text \<open>Reading a Go \<^verbatim>\<open>map[time.Weekday]bool\<close>: a missing key reads as false.\<close>

definition isWorkDay :: "(Weekday \<Rightarrow> bool option) \<Rightarrow> Weekday \<Rightarrow> bool" where
  "isWorkDay wd d = (case wd d of None \<Rightarrow> False | Some b \<Rightarrow> b)"

text \<open>
  \<^verbatim>\<open>time.ParseInLocation("15:04", s, location)\<close> followed by \<^verbatim>\<open>Hour()\<close> and
  \<^verbatim>\<open>Minute()\<close>: the layout takes an hour of one or two digits below 24, a colon, a
  minute of exactly two digits below 60, and nothing more.
\<close>

definition isDigit :: "char \<Rightarrow> bool" where
  "isDigit c = (c \<in> set ''0123456789'')"

definition digitVal :: "char \<Rightarrow> int" where
  "digitVal c = of_char c - of_char CHR ''0''"

fun getnum :: "string \<Rightarrow> bool \<Rightarrow> (int \<times> string) option" where
  "getnum [] fixed = None"
| "getnum [c] fixed =
     (if \<not> isDigit c then None else if fixed then None else Some (digitVal c, []))"
| "getnum (c # d # rest) fixed =
     (if \<not> isDigit c then None
      else if \<not> isDigit d then (if fixed then None else Some (digitVal c, d # rest))
      else Some (digitVal c * 10 + digitVal d, rest))"

definition parseClock :: "string \<Rightarrow> (int \<times> int) option" where
  "parseClock s =
     (case getnum s False of
        None \<Rightarrow> None
      | Some (hour, r1) \<Rightarrow>
          if hour < 0 \<or> 24 \<le> hour then None
          else (case r1 of
                  [] \<Rightarrow> None
                | c # r2 \<Rightarrow>
                    if c \<noteq> CHR '':'' then None
                    else (case getnum r2 True of
                            None \<Rightarrow> None
                          | Some (minute, r3) \<Rightarrow>
                              if minute < 0 \<or> 60 \<le> minute then None
                              else if r3 \<noteq> [] then None
                              else Some (hour, minute))))"

text \<open>
  \<^verbatim>\<open>StaticProvider.IsWorkTime\<close>. \<open>tzdb\<close> is the zone database that
  \<^verbatim>\<open>time.LoadLocation\<close> reads: the location of a zone name, if the name resolves.
\<close>

definition StaticProvider_IsWorkTime ::
  "(string \<Rightarrow> Location option) \<Rightarrow> StaticProvider \<Rightarrow> Time \<Rightarrow> sched_error + bool" where
  "StaticProvider_IsWorkTime tzdb p now =
     (case tzdb (TimeZone p) of
        None \<Rightarrow> Inl (UnknownTimeZone (TimeZone p))
      | Some location \<Rightarrow>
          (let nowInTz = In now location in
           if \<not> isWorkDay (WorkDays p) (Time_Weekday nowInTz) then Inr False
           else (case parseClock (StartTime p) of
                   None \<Rightarrow> Inl (TimeParseError (StartTime p))
                 | Some (sh, sm) \<Rightarrow>
                     (case parseClock (EndTime p) of
                        None \<Rightarrow> Inl (TimeParseError (EndTime p))
                      | Some (eh, em) \<Rightarrow>
                          (let startTime = Date (civilDay nowInTz) sh sm 0 0 location;
                               endTime = Date (civilDay nowInTz) eh em 0 0 location
                           in Inr (After nowInTz startTime \<and> Before nowInTz endTime))))))"

section \<open>The calendar work-time providers\<close>

text \<open>
  Both calendar providers keep their events in a map from a day key to the events that
  touch that day. The key is \<^verbatim>\<open>t.Format("2006-01-02")\<close>, the civil date of \<open>t\<close> in its
  own location. The read/write lock around the map is not modelled: one call runs at a
  time. A compiled regular expression is used only through \<^verbatim>\<open>MatchString\<close>, so it is
  the set of strings it matches.
\<close>

type_synonym Regexp = "string \<Rightarrow> bool"

record cachedEvent =
  Start :: Time
  End :: Time

record calendarEvent = cachedEvent +
  Summary :: string

definition dateKey :: "Time \<Rightarrow> int" where
  "dateKey t = civilDay t"

text \<open>\<^verbatim>\<open>append(m[key], entry)\<close> on a Go map of slices: a missing key reads as the empty slice.\<close>

definition appendTo :: "'a list option \<Rightarrow> 'a \<Rightarrow> 'a list" where
  "appendTo slot entry = (case slot of None \<Rightarrow> [entry] | Some es \<Rightarrow> es @ [entry])"

text \<open>
  The loop that files an event under every day of its range,
  \<^verbatim>\<open>for current := start; current.Before(end); current = current.AddDate(0, 0, 1)\<close>.
  \<^verbatim>\<open>AddDate\<close> goes through \<^verbatim>\<open>Date\<close>, and across a transition that skips a whole civil
  day \<^verbatim>\<open>Date\<close> can resolve the next day's wall clock to the instant it started from; the
  loop then never ends. The result \<open>None\<close> stands for that.
\<close>

partial_function (option) storeDays ::
  "Time \<Rightarrow> Time \<Rightarrow> 'a \<Rightarrow> (int \<Rightarrow> 'a list option) \<Rightarrow> (int \<Rightarrow> 'a list option) option" where
  "storeDays current end' entry m =
     (if Before current end'
      then storeDays (AddDate_days current 1) end' entry
             (m(dateKey current \<mapsto> appendTo (m (dateKey current)) entry))
      else Some m)"

subsection \<open>The ICS provider\<close>

record ICSCalendarProvider =
  url :: string
  syncInterval :: int
  workPatterns :: "Regexp list"
  holidayPatterns :: "Regexp list"
  events :: "int \<Rightarrow> calendarEvent list option"

text \<open>
  What \<^verbatim>\<open>syncEvents\<close> gets from the network: the HTTP request fails, reading the body
  fails, the body does not parse, or it parses to a list of events. Of an event the
  provider reads the start and the end, each of which may be missing or malformed, and
  the summary, which may be missing.
\<close>

datatype 'a fetched = GetFailed string | ReadFailed string | ParseFailed string | Parsed 'a

record VEvent =
  startAt :: "Time option"
  endAt :: "Time option"
  summary :: "string option"

fun ICS_index ::
  "VEvent list \<Rightarrow> (int \<Rightarrow> calendarEvent list option) \<Rightarrow>
     (int \<Rightarrow> calendarEvent list option) option" where
  "ICS_index [] m = Some m"
| "ICS_index (event # rest) m =
     (case startAt event of
        None \<Rightarrow> ICS_index rest m
      | Some start \<Rightarrow>
          (let end' = (case endAt event of None \<Rightarrow> AddDate_days start 1 | Some e \<Rightarrow> e) in
           case summary event of
             None \<Rightarrow> ICS_index rest m
           | Some s \<Rightarrow>
               (case storeDays start end' \<lparr>Start = start, End = end', Summary = s\<rparr> m of
                  None \<Rightarrow> None
                | Some m' \<Rightarrow> ICS_index rest m')))"

text \<open>
  \<^verbatim>\<open>ICSCalendarProvider.syncEvents\<close>: the three failures return before the map is
  touched; after a successful parse the map is emptied and filled from the feed.
\<close>

definition ICSCalendarProvider_syncEvents ::
  "VEvent list fetched \<Rightarrow> ICSCalendarProvider \<Rightarrow>
     ((sched_error + unit) \<times> ICSCalendarProvider) option" where
  "ICSCalendarProvider_syncEvents resp p =
     (case resp of
        GetFailed e \<Rightarrow> Some (Inl (FetchError e), p)
      | ReadFailed e \<Rightarrow> Some (Inl (ReadError e), p)
      | ParseFailed e \<Rightarrow> Some (Inl (CalendarParseError e), p)
      | Parsed calendar \<Rightarrow>
          (case ICS_index calendar Map.empty of
             None \<Rightarrow> None
           | Some m \<Rightarrow> Some (Inr (), p\<lparr>events := m\<rparr>)))"

fun matchAny :: "Regexp list \<Rightarrow> string \<Rightarrow> bool" where
  "matchAny [] s = False"
| "matchAny (pattern # patterns) s = (if pattern s then True else matchAny patterns s)"

fun ICS_scan :: "Regexp list \<Rightarrow> Regexp list \<Rightarrow> Time \<Rightarrow> calendarEvent list \<Rightarrow> bool" where
  "ICS_scan holiday work t [] = True"
| "ICS_scan holiday work t (event # rest) =
     (if \<not> Before t (Start event) \<and> Before t (End event)
      then (if matchAny holiday (Summary event) then False
            else if matchAny work (Summary event) then True
            else ICS_scan holiday work t rest)
      else ICS_scan holiday work t rest)"

definition ICSCalendarProvider_IsWorkTime :: "ICSCalendarProvider \<Rightarrow> Time \<Rightarrow> sched_error + bool" where
  "ICSCalendarProvider_IsWorkTime p t =
     (case events p (dateKey t) of
        None \<Rightarrow> Inr True
      | Some evs \<Rightarrow> Inr (ICS_scan (holidayPatterns p) (workPatterns p) t evs))"

subsection \<open>The Google Calendar provider\<close>

record eventCache =
  cacheEvents :: "int \<Rightarrow> cachedEvent list option"
  lastSync :: Time

record GoogleCalendarProvider =
  calendarID :: string
  offTimeEvents :: string
  cache :: eventCache
  gcalSyncInterval :: int
  cacheDays :: int

text \<open>
  An item of the \<^verbatim>\<open>Events.List\<close> response: start and end, each with a date-time string
  and a date string, either of which may be empty.
\<close>

record EventDateTime =
  DateTime :: string
  DateOnly :: string

record GEvent =
  gStart :: EventDateTime
  gEnd :: EventDateTime
  gSummary :: string

datatype 'a listed = ListFailed string | Listed 'a

text \<open>
  The start (and likewise the end) of an item: the date-time if there is one, parsed as
  RFC 3339, else the date, parsed as a day; \<open>None\<close> on the three paths that skip the
  item. The two parsers of the \<^verbatim>\<open>time\<close> package are parameters.
\<close>

definition eventTime ::
  "(string \<Rightarrow> Time option) \<Rightarrow> (string \<Rightarrow> Time option) \<Rightarrow> EventDateTime \<Rightarrow> Time option" where
  "eventTime parseRFC3339 parseDay edt =
     (if DateTime edt \<noteq> [] then parseRFC3339 (DateTime edt)
      else if DateOnly edt \<noteq> [] then parseDay (DateOnly edt)
      else None)"

fun Google_index ::
  "(string \<Rightarrow> Time option) \<Rightarrow> (string \<Rightarrow> Time option) \<Rightarrow> GEvent list \<Rightarrow>
     (int \<Rightarrow> cachedEvent list option) \<Rightarrow> (int \<Rightarrow> cachedEvent list option) option" where
  "Google_index parseRFC3339 parseDay [] m = Some m"
| "Google_index parseRFC3339 parseDay (event # rest) m =
     (case eventTime parseRFC3339 parseDay (gStart event) of
        None \<Rightarrow> Google_index parseRFC3339 parseDay rest m
      | Some start \<Rightarrow>
          (case eventTime parseRFC3339 parseDay (gEnd event) of
             None \<Rightarrow> Google_index parseRFC3339 parseDay rest m
           | Some end' \<Rightarrow>
               (case storeDays start end' \<lparr>Start = start, End = end'\<rparr> m of
                  None \<Rightarrow> None
                | Some m' \<Rightarrow> Google_index parseRFC3339 parseDay rest m')))"

text \<open>
  \<^verbatim>\<open>GoogleCalendarProvider.syncEvents\<close>: the map is emptied first; with an empty query the
  call returns at once; a failed listing returns the error; otherwise the map is filled
  from the items and the time of the sync is recorded. \<open>now\<close> is \<^verbatim>\<open>time.Now()\<close>.
\<close>

definition GoogleCalendarProvider_syncEvents ::
  "(string \<Rightarrow> Time option) \<Rightarrow> (string \<Rightarrow> Time option) \<Rightarrow> Time \<Rightarrow> GEvent list listed \<Rightarrow>
     GoogleCalendarProvider \<Rightarrow> ((sched_error + unit) \<times> GoogleCalendarProvider) option" where
  "GoogleCalendarProvider_syncEvents parseRFC3339 parseDay now resp p =
     (let p1 = p\<lparr>cache := (cache p)\<lparr>cacheEvents := Map.empty\<rparr>\<rparr> in
      if offTimeEvents p = [] then Some (Inr (), p1)
      else (case resp of
              ListFailed e \<Rightarrow> Some (Inl (ListEventsError e), p1)
            | Listed items \<Rightarrow>
                (case Google_index parseRFC3339 parseDay items (cacheEvents (cache p1)) of
                   None \<Rightarrow> None
                 | Some m \<Rightarrow>
                     Some (Inr (), p1\<lparr>cache := (cache p1)\<lparr>cacheEvents := m, lastSync := now\<rparr>\<rparr>))))"

fun Google_scan :: "Time \<Rightarrow> cachedEvent list \<Rightarrow> bool" where
  "Google_scan t [] = True"
| "Google_scan t (event # rest) =
     (if \<not> Before t (Start event) \<and> Before t (End event) then False
      else Google_scan t rest)"

definition GoogleCalendarProvider_IsWorkTime ::
  "GoogleCalendarProvider \<Rightarrow> Time \<Rightarrow> sched_error + bool" where
  "GoogleCalendarProvider_IsWorkTime p t =
     (case cacheEvents (cache p) (dateKey t) of
        None \<Rightarrow> Inr True
      | Some evs \<Rightarrow> Inr (Google_scan t evs))"

section \<open>The composite work-time provider\<close>

text \<open>
  A \<^verbatim>\<open>schedule.Provider\<close> is anything with an \<^verbatim>\<open>IsWorkTime\<close> method. A call may
  touch whatever the member owns (a cache behind a lock, a log), so a member is a function
  of the time and of that world, returning its answer and the world after the call; a
  member that only reads returns the world as it found it.
\<close>

type_synonym ('e, 'w) Provider = "Time \<Rightarrow> 'w \<Rightarrow> ('e + bool) \<times> 'w"

fun CompositeProvider_IsWorkTime ::
  "('e, 'w) Provider list \<Rightarrow> Time \<Rightarrow> 'w \<Rightarrow> ('e + bool) \<times> 'w" where
  "CompositeProvider_IsWorkTime [] t w = (Inr True, w)"
| "CompositeProvider_IsWorkTime (provider # providers) t w =
     (case provider t w of
        (Inl err, w') \<Rightarrow> (Inl err, w')
      | (Inr isWork, w') \<Rightarrow>
          if \<not> isWork then (Inr False, w')
          else CompositeProvider_IsWorkTime providers t w')"

section \<open>The cloud scaling providers\<close>

text \<open>
  The providers of \<^verbatim>\<open>pkg/providers\<close> talk to the Kubernetes API and to the cloud API.
  The world they act on holds the nodes of the cluster, the saved-state records (the
  ConfigMaps named \<^verbatim>\<open>bmw-saver-nodepool-\<close> plus the pool name, in the namespace of the
  controller), the live pools, and the log of the requests that change something, in the
  order they were issued, whether or not they were accepted.

  Every call to the outside may fail. The environment \<open>env\<close> of one operation gives, for
  each call site, the error the call meets there, if any; a call that meets no error
  answers from the world. An accepted size request sets the size of the pool, an accepted
  autoscaling request sets its autoscaling block, and a create request for a record that
  exists changes nothing.
\<close>

datatype error =
  ErrNoSavedState string
| Failed string
| Panicked string


text \<open>
  An error of an API call: a \<^verbatim>\<open>googleapi.Error\<close> with its status code and its detail
  items (of an item only the \<^verbatim>\<open>reason\<close> string is read, when it has one), the
  resource-in-use answer of EKS, or anything else.
\<close>

datatype detail = Reason string | OtherDetail

datatype api_error =
  GoogleApiError int "detail list"
| ResourceInUseException
| OtherError string

fun busyDetail :: "detail list \<Rightarrow> bool" where
  "busyDetail [] = False"
| "busyDetail (item # rest) =
     (case item of
        Reason reason \<Rightarrow>
          if reason = ''CLUSTER_ALREADY_HAS_OPERATION'' then True else busyDetail rest
      | OtherDetail \<Rightarrow> busyDetail rest)"

definition isClusterBusy :: "api_error option \<Rightarrow> bool" where
  "isClusterBusy err =
     (case err of
        None \<Rightarrow> False
      | Some (GoogleApiError code details) \<Rightarrow> if code \<noteq> 400 then False else busyDetail details
      | Some _ \<Rightarrow> False)"

record Node =
  nodeName :: string
  nodeLabels :: "string \<Rightarrow> string option"
  Unschedulable :: bool

definition isNodeCordoned :: "Node \<Rightarrow> bool" where
  "isNodeCordoned node = Unschedulable node"

text \<open>
  The text of a saved-state record: it decodes to a configuration, or it does not parse.
\<close>

datatype 'c payload = Encoded 'c | Malformed

definition ConfigMapNamePrefix :: string where
  "ConfigMapNamePrefix = ''bmw-saver-nodepool-''"

subsection \<open>The GKE provider\<close>

record NodePoolAutoscaling =
  Enabled :: bool
  MinNodeCount :: int
  MaxNodeCount :: int

record NodePool =
  Name :: string
  InitialNodeCount :: int
  Autoscaling :: "NodePoolAutoscaling option"

record NodePoolConfig =
  NodeCount :: int
  SavedAutoscaling :: "NodePoolAutoscaling option"

datatype gke_request =
  DrainNode string
| CreateConfigMap string NodePoolConfig
| SetAutoscaling string NodePoolAutoscaling
| SetSize string int

datatype gke_site =
  AtListNodePools
| AtNewClient
| AtListNodes
| AtDrainNode string
| AtSaveListNodePools
| AtCreateClient
| AtCreateConfigMap
| AtDisableAutoscaling
| AtUpdateNodePool
| AtRestoreNewClient
| AtGetConfigMap
| AtRestoreListNodePools
| AtRestoreAutoscaling
| AtRestoreSize

record gke_world =
  nodePools :: "NodePool list"
  nodes :: "Node list"
  configMaps :: "string \<Rightarrow> NodePoolConfig payload option"
  requests :: "gke_request list"

type_synonym gke_env = "gke_site \<Rightarrow> api_error option"

definition setPoolSize :: "string \<Rightarrow> int \<Rightarrow> NodePool list \<Rightarrow> NodePool list" where
  "setPoolSize name n pools =
     map (\<lambda>pool. if Name pool = name then pool\<lparr>InitialNodeCount := n\<rparr> else pool) pools"

definition setPoolAutoscaling ::
  "string \<Rightarrow> NodePoolAutoscaling \<Rightarrow> NodePool list \<Rightarrow> NodePool list" where
  "setPoolAutoscaling name a pools =
     map (\<lambda>pool. if Name pool = name then pool\<lparr>Autoscaling := Some a\<rparr> else pool) pools"

definition autoscalingEnabled :: "NodePoolAutoscaling option \<Rightarrow> bool" where
  "autoscalingEnabled a = (case a of None \<Rightarrow> False | Some x \<Rightarrow> Enabled x)"

definition getNodesInNodePool :: "gke_env \<Rightarrow> string \<Rightarrow> gke_world \<Rightarrow> error + Node list" where
  "getNodesInNodePool env nodePoolName w =
     (if env AtNewClient \<noteq> None then Inl (Failed ''failed to create kubernetes client'')
      else if env AtListNodes \<noteq> None then Inl (Failed ''failed to list nodes'')
      else Inr (filter (\<lambda>node. nodeLabels node ''cloud.google.com/gke-nodepool''
                                  = Some nodePoolName) (nodes w)))"

text \<open>The loop of \<^verbatim>\<open>ScaleNodePool\<close> that drains the cordoned nodes of the pool.\<close>

fun drainCordoned :: "gke_env \<Rightarrow> Node list \<Rightarrow> gke_world \<Rightarrow> error option \<times> gke_world" where
  "drainCordoned env [] w = (None, w)"
| "drainCordoned env (node # rest) w =
     (if isNodeCordoned node
      then (let w' = w\<lparr>requests := requests w @ [DrainNode (nodeName node)]\<rparr> in
            if env (AtDrainNode (nodeName node)) \<noteq> None
            then (Some (Failed ''failed to drain node''), w')
            else drainCordoned env rest w')
      else drainCordoned env rest w)"

text \<open>\<^verbatim>\<open>pkgk8s.CreateConfigMap\<close>: an existing record is left as it is, without an error.\<close>

definition CreateConfigMap_gke ::
  "gke_env \<Rightarrow> string \<Rightarrow> NodePoolConfig \<Rightarrow> gke_world \<Rightarrow> error option \<times> gke_world" where
  "CreateConfigMap_gke env name config w =
     (if env AtCreateClient \<noteq> None then (Some (Failed ''failed to create kubernetes client''), w)
      else (let w' = w\<lparr>requests := requests w @ [CreateConfigMap name config]\<rparr> in
            if env AtCreateConfigMap \<noteq> None then (Some (Failed ''failed to create ConfigMap''), w')
            else if configMaps w name \<noteq> None then (None, w')
            else (None, w'\<lparr>configMaps := (configMaps w)(name \<mapsto> Encoded config)\<rparr>)))"

definition saveNodePoolConfig :: "gke_env \<Rightarrow> string \<Rightarrow> gke_world \<Rightarrow> error option \<times> gke_world" where
  "saveNodePoolConfig env nodePoolName w =
     (if env AtSaveListNodePools \<noteq> None then (Some (Failed ''failed to list node pools''), w)
      else (case find (\<lambda>nodePool. Name nodePool = nodePoolName) (nodePools w) of
              None \<Rightarrow> (Some (Failed ''node pool not found''), w)
            | Some nodePool \<Rightarrow>
                (case CreateConfigMap_gke env (ConfigMapNamePrefix @ nodePoolName)
                        \<lparr>NodeCount = InitialNodeCount nodePool,
                         SavedAutoscaling = Autoscaling nodePool\<rparr> w of
                   (Some e, w') \<Rightarrow> (Some (Failed ''failed to save node pool config''), w')
                 | (None, w') \<Rightarrow> (None, w'))))"

definition disableAutoscaling :: "gke_env \<Rightarrow> string \<Rightarrow> gke_world \<Rightarrow> error option \<times> gke_world" where
  "disableAutoscaling env nodePoolName w =
     (let request = \<lparr>Enabled = False, MinNodeCount = 0, MaxNodeCount = 0\<rparr>;
          w' = w\<lparr>requests := requests w @ [SetAutoscaling nodePoolName request]\<rparr> in
      case env AtDisableAutoscaling of
        None \<Rightarrow> (None, w'\<lparr>nodePools := setPoolAutoscaling nodePoolName request (nodePools w)\<rparr>)
      | Some err \<Rightarrow>
          if isClusterBusy (Some err) then (None, w')
          else (Some (Failed ''failed to disable autoscaling for node pool''), w'))"

definition updateNodePool ::
  "gke_env \<Rightarrow> string \<Rightarrow> int \<Rightarrow> gke_world \<Rightarrow> error option \<times> gke_world" where
  "updateNodePool env nodePoolName count w =
     (let w' = w\<lparr>requests := requests w @ [SetSize nodePoolName count]\<rparr> in
      case env AtUpdateNodePool of
        None \<Rightarrow> (None, w'\<lparr>nodePools := setPoolSize nodePoolName count (nodePools w)\<rparr>)
      | Some err \<Rightarrow>
          if isClusterBusy (Some err) then (None, w')
          else (Some (Failed ''failed to update node pool''), w'))"

definition GKEProvider_ScaleNodePool ::
  "gke_env \<Rightarrow> string \<Rightarrow> int \<Rightarrow> gke_world \<Rightarrow> error option \<times> gke_world" where
  "GKEProvider_ScaleNodePool env nodePoolName count w =
     (if env AtListNodePools \<noteq> None then (Some (Failed ''failed to list node pools''), w)
      else (case find (\<lambda>nodePool. Name nodePool = nodePoolName) (nodePools w) of
              None \<Rightarrow> (None, w)
            | Some nodePool \<Rightarrow>
                (case getNodesInNodePool env nodePoolName w of
                   Inl e \<Rightarrow> (Some (Failed ''failed to get nodes in node pool''), w)
                 | Inr ns \<Rightarrow>
                     if int (length ns) = count then (None, w)
                     else (case drainCordoned env ns w of
                             (Some e, w1) \<Rightarrow> (Some e, w1)
                           | (None, w1) \<Rightarrow>
                               (case saveNodePoolConfig env nodePoolName w1 of
                                  (Some e, w2) \<Rightarrow>
                                    (Some (Failed ''failed to save node pool config''), w2)
                                | (None, w2) \<Rightarrow>
                                    (case (if autoscalingEnabled (Autoscaling nodePool)
                                           then disableAutoscaling env nodePoolName w2
                                           else (None, w2)) of
                                       (Some e, w3) \<Rightarrow>
                                         (Some (Failed ''failed to disable autoscaling''), w3)
                                     | (None, w3) \<Rightarrow>
                                         (case updateNodePool env nodePoolName count w3 of
                                            (Some e, w4) \<Rightarrow>
                                              (Some (Failed ''failed to update node pool''), w4)
                                          | (None, w4) \<Rightarrow> (None, w4))))))))"

text \<open>
  \<^verbatim>\<open>GKEProvider.RestoreNodePool\<close>. The comparison of the live pool with the saved
  configuration is kept as the source writes it.
\<close>

definition isAutoscalingMatch :: "NodePool \<Rightarrow> NodePoolConfig \<Rightarrow> bool" where
  "isAutoscalingMatch currentPool savedConfig =
     ((Autoscaling currentPool = None \<and> SavedAutoscaling savedConfig = None)
      \<or> (case (Autoscaling currentPool, SavedAutoscaling savedConfig) of
            (Some current, Some saved) \<Rightarrow> Enabled current = Enabled saved
          | _ \<Rightarrow> False))"

definition isNodeCountMatch :: "NodePool \<Rightarrow> NodePoolConfig \<Rightarrow> bool" where
  "isNodeCountMatch currentPool savedConfig =
     (autoscalingEnabled (SavedAutoscaling savedConfig)
      \<or> InitialNodeCount currentPool = NodeCount savedConfig)"

text \<open>The branch of \<^verbatim>\<open>RestoreNodePool\<close> that sets the size back to the saved count.\<close>

definition restoreSize ::
  "gke_env \<Rightarrow> string \<Rightarrow> int \<Rightarrow> gke_world \<Rightarrow> error option \<times> gke_world" where
  "restoreSize env nodePoolName n w =
     (let w' = w\<lparr>requests := requests w @ [SetSize nodePoolName n]\<rparr> in
      case env AtRestoreSize of
        None \<Rightarrow> (None, w'\<lparr>nodePools := setPoolSize nodePoolName n (nodePools w)\<rparr>)
      | Some err \<Rightarrow>
          if isClusterBusy (Some err) then (None, w')
          else (Some (Failed ''failed to restore node count''), w'))"

definition GKEProvider_RestoreNodePool ::
  "gke_env \<Rightarrow> string \<Rightarrow> gke_world \<Rightarrow> error option \<times> gke_world" where
  "GKEProvider_RestoreNodePool env nodePoolName w =
     (if env AtRestoreNewClient \<noteq> None
      then (Some (Failed ''failed to create kubernetes client''), w)
      else if env AtGetConfigMap \<noteq> None then (Some (Failed ''failed to get saved config''), w)
      else (case configMaps w (ConfigMapNamePrefix @ nodePoolName) of
              None \<Rightarrow> (Some (ErrNoSavedState nodePoolName), w)
            | Some Malformed \<Rightarrow> (Some (Failed ''failed to parse saved config''), w)
            | Some (Encoded savedConfig) \<Rightarrow>
                if env AtRestoreListNodePools \<noteq> None
                then (Some (Failed ''failed to list node pools''), w)
                else (case find (\<lambda>pool. Name pool = nodePoolName) (nodePools w) of
                        None \<Rightarrow> (Some (Failed ''node pool not found''), w)
                      | Some currentPool \<Rightarrow>
                          if isAutoscalingMatch currentPool savedConfig
                             \<and> isNodeCountMatch currentPool savedConfig
                          then (None, w)
                          else (case SavedAutoscaling savedConfig of
                                  Some saved \<Rightarrow>
                                    if Enabled saved
                                    then (if \<not> isAutoscalingMatch currentPool savedConfig
                                          then (let w' = w\<lparr>requests := requests w
                                                           @ [SetAutoscaling nodePoolName saved]\<rparr> in
                                                case env AtRestoreAutoscaling of
                                                  None \<Rightarrow>
                                                    (None, w'\<lparr>nodePools :=
                                                       setPoolAutoscaling nodePoolName saved
                                                         (nodePools w)\<rparr>)
                                                | Some err \<Rightarrow>
                                                    if isClusterBusy (Some err) then (None, w')
                                                    else (Some (Failed
                                                            ''failed to restore autoscaling''), w'))
                                          else (None, w))
                                    else restoreSize env nodePoolName (NodeCount savedConfig) w
                                | None \<Rightarrow>
                                    restoreSize env nodePoolName (NodeCount savedConfig) w))))"

subsection \<open>The EKS provider\<close>

record NodegroupScalingConfig =
  MinSize :: "int option"
  MaxSize :: "int option"
  DesiredSize :: "int option"

record Nodegroup =
  ScalingConfig :: "NodegroupScalingConfig option"

record NodeGroupConfig =
  SavedDesiredSize :: int
  SavedScalingConfig :: "NodegroupScalingConfig option"

datatype aws_request =
  AwsDrainNode string
| AwsCreateConfigMap string NodeGroupConfig
| UpdateNodegroupConfig string NodegroupScalingConfig

text \<open>
  The same helper is called at several points of one operation; a call site is the helper
  together with the point of the operation it is called from.
\<close>

datatype aws_phase = BeforeSave | InSave | AfterSave | AfterWait | InRestore

datatype aws_site =
  AwsNewClient aws_phase
| AwsListNodes aws_phase
| AwsNodeClient aws_phase
| AwsGetNode aws_phase
| AwsDescribeNodegroup aws_phase
| AwsUpdateNodegroupConfig aws_phase
| AwsCreateClient
| AwsCreate
| AwsWait
| AwsRestoreClient
| AwsGetConfigMap

record aws_world =
  nodegroups :: "string \<Rightarrow> Nodegroup option"
  awsNodes :: "Node list"
  awsConfigMaps :: "string \<Rightarrow> NodeGroupConfig payload option"
  eksClients :: "string set"
  awsRequests :: "aws_request list"

type_synonym aws_env = "aws_site \<Rightarrow> api_error option"

definition getNodesInNodeGroup ::
  "aws_env \<Rightarrow> aws_phase \<Rightarrow> string \<Rightarrow> aws_world \<Rightarrow> error + Node list" where
  "getNodesInNodeGroup env phase nodeGroupName w =
     (if env (AwsNewClient phase) \<noteq> None then Inl (Failed ''failed to create kubernetes client'')
      else if env (AwsListNodes phase) \<noteq> None then Inl (Failed ''failed to list nodes'')
      else Inr (filter (\<lambda>node. nodeLabels node ''eks.amazonaws.com/nodegroup''
                                  = Some nodeGroupName) (awsNodes w)))"

definition getNodeRegion ::
  "aws_env \<Rightarrow> aws_phase \<Rightarrow> string \<Rightarrow> aws_world \<Rightarrow> error + string" where
  "getNodeRegion env phase name w =
     (if env (AwsNodeClient phase) \<noteq> None then Inl (Failed ''failed to create kubernetes client'')
      else if env (AwsGetNode phase) \<noteq> None then Inl (Failed ''failed to get node'')
      else (case find (\<lambda>node. nodeName node = name) (awsNodes w) of
              None \<Rightarrow> Inl (Failed ''failed to get node'')
            | Some node \<Rightarrow>
                (case nodeLabels node ''topology.kubernetes.io/region'' of
                   None \<Rightarrow> Inl (Failed ''region label not found on node'')
                 | Some region \<Rightarrow>
                     if region = [] then Inl (Failed ''region label not found on node'')
                     else Inr region)))"

definition getEKSClient :: "string \<Rightarrow> aws_world \<Rightarrow> aws_world" where
  "getEKSClient region w =
     (if region \<in> eksClients w then w else w\<lparr>eksClients := insert region (eksClients w)\<rparr>)"

text \<open>
  The opening of \<^verbatim>\<open>ScaleNodePool\<close>, \<^verbatim>\<open>saveNodeGroupConfig\<close> and \<^verbatim>\<open>RestoreNodePool\<close>:
  the nodes of the group, the region of the first one, the client of that region.
\<close>

definition regionClient ::
  "aws_env \<Rightarrow> aws_phase \<Rightarrow> string \<Rightarrow> aws_world \<Rightarrow> error + aws_world" where
  "regionClient env phase nodeGroupName w =
     (case getNodesInNodeGroup env phase nodeGroupName w of
        Inl e \<Rightarrow> Inl (Failed ''failed to get nodes'')
      | Inr [] \<Rightarrow> Inl (Failed ''no nodes found in node group'')
      | Inr (first # rest) \<Rightarrow>
          (case getNodeRegion env phase (nodeName first) w of
             Inl e \<Rightarrow> Inl (Failed ''failed to get region'')
           | Inr region \<Rightarrow> Inr (getEKSClient region w)))"

definition DescribeNodegroup ::
  "aws_env \<Rightarrow> aws_phase \<Rightarrow> string \<Rightarrow> aws_world \<Rightarrow> Nodegroup option" where
  "DescribeNodegroup env phase nodeGroupName w =
     (if env (AwsDescribeNodegroup phase) \<noteq> None then None else nodegroups w nodeGroupName)"

definition applyScaling :: "NodegroupScalingConfig \<Rightarrow> Nodegroup \<Rightarrow> Nodegroup" where
  "applyScaling input nodeGroup =
     (case ScalingConfig nodeGroup of
        None \<Rightarrow> nodeGroup\<lparr>ScalingConfig := Some input\<rparr>
      | Some current \<Rightarrow>
          nodeGroup\<lparr>ScalingConfig := Some
            \<lparr>MinSize = (case MinSize input of None \<Rightarrow> MinSize current | Some v \<Rightarrow> Some v),
             MaxSize = (case MaxSize input of None \<Rightarrow> MaxSize current | Some v \<Rightarrow> Some v),
             DesiredSize = (case DesiredSize input of None \<Rightarrow> DesiredSize current
                            | Some v \<Rightarrow> Some v)\<rparr>\<rparr>)"

text \<open>
  One \<^verbatim>\<open>UpdateNodegroupConfig\<close> request: \<open>True\<close> when it was accepted. The provider has one
  reaction to every error of this call.
\<close>

definition UpdateNodegroupConfig_call ::
  "aws_env \<Rightarrow> aws_phase \<Rightarrow> string \<Rightarrow> NodegroupScalingConfig \<Rightarrow> aws_world \<Rightarrow> bool \<times> aws_world"
  where
  "UpdateNodegroupConfig_call env phase nodeGroupName input w =
     (let w' = w\<lparr>awsRequests := awsRequests w @ [UpdateNodegroupConfig nodeGroupName input]\<rparr> in
      if env (AwsUpdateNodegroupConfig phase) \<noteq> None then (False, w')
      else (case nodegroups w nodeGroupName of
              None \<Rightarrow> (False, w')
            | Some nodeGroup \<Rightarrow>
                (True, w'\<lparr>nodegroups :=
                   (nodegroups w)(nodeGroupName \<mapsto> applyScaling input nodeGroup)\<rparr>)))"

definition CreateConfigMap_aws ::
  "aws_env \<Rightarrow> string \<Rightarrow> NodeGroupConfig \<Rightarrow> aws_world \<Rightarrow> error option \<times> aws_world" where
  "CreateConfigMap_aws env name config w =
     (if env AwsCreateClient \<noteq> None then (Some (Failed ''failed to create kubernetes client''), w)
      else (let w' = w\<lparr>awsRequests := awsRequests w @ [AwsCreateConfigMap name config]\<rparr> in
            if env AwsCreate \<noteq> None then (Some (Failed ''failed to create ConfigMap''), w')
            else if awsConfigMaps w name \<noteq> None then (None, w')
            else (None, w'\<lparr>awsConfigMaps := (awsConfigMaps w)(name \<mapsto> Encoded config)\<rparr>)))"

text \<open>
  \<^verbatim>\<open>saveNodeGroupConfig\<close> reads the desired size through two pointers before it tests
  the first of them; a nil pointer there ends the program, written \<open>Panicked\<close>.
\<close>

definition saveNodeGroupConfig ::
  "aws_env \<Rightarrow> string \<Rightarrow> aws_world \<Rightarrow> error option \<times> aws_world" where
  "saveNodeGroupConfig env nodeGroupName w =
     (case regionClient env InSave nodeGroupName w of
        Inl e \<Rightarrow> (Some e, w)
      | Inr w1 \<Rightarrow>
          (case DescribeNodegroup env InSave nodeGroupName w1 of
             None \<Rightarrow> (Some (Failed ''failed to describe node group''), w1)
           | Some nodeGroup \<Rightarrow>
               (case ScalingConfig nodeGroup of
                  None \<Rightarrow> (Some (Panicked ''nil pointer dereference''), w1)
                | Some scaling \<Rightarrow>
                    (case DesiredSize scaling of
                       None \<Rightarrow> (Some (Panicked ''nil pointer dereference''), w1)
                     | Some desired \<Rightarrow>
                         (case CreateConfigMap_aws env (ConfigMapNamePrefix @ nodeGroupName)
                                 \<lparr>SavedDesiredSize = desired,
                                  SavedScalingConfig = Some
                                    \<lparr>MinSize = MinSize scaling, MaxSize = MaxSize scaling,
                                     DesiredSize = None\<rparr>\<rparr> w1 of
                            (Some e, w2) \<Rightarrow>
                              (Some (Failed ''failed to save node group config''), w2)
                          | (None, w2) \<Rightarrow> (None, w2))))))"

text \<open>The loop that drains the excess nodes; what a drain answers is only logged.\<close>

fun drainExcess :: "nat \<Rightarrow> Node list \<Rightarrow> aws_world \<Rightarrow> aws_world" where
  "drainExcess 0 ns w = w"
| "drainExcess (Suc k) [] w = w"
| "drainExcess (Suc k) (node # rest) w =
     drainExcess k rest (w\<lparr>awsRequests := awsRequests w @ [AwsDrainNode (nodeName node)]\<rparr>)"

definition disablesAutoscaling :: "Nodegroup \<Rightarrow> bool" where
  "disablesAutoscaling nodeGroup =
     (case ScalingConfig nodeGroup of None \<Rightarrow> False | Some scaling \<Rightarrow> MinSize scaling \<noteq> None)"

definition AWSProvider_ScaleNodePool ::
  "aws_env \<Rightarrow> string \<Rightarrow> int \<Rightarrow> aws_world \<Rightarrow> error option \<times> aws_world" where
  "AWSProvider_ScaleNodePool env nodeGroupName count w =
     (case regionClient env BeforeSave nodeGroupName w of
        Inl e \<Rightarrow> (Some e, w)
      | Inr w0 \<Rightarrow>
          (case saveNodeGroupConfig env nodeGroupName w0 of
             (Some e, w1) \<Rightarrow>
               (Some (case e of Panicked m \<Rightarrow> Panicked m
                      | _ \<Rightarrow> Failed ''failed to save node group config''), w1)
           | (None, w1) \<Rightarrow>
               (case DescribeNodegroup env AfterSave nodeGroupName w1 of
                  None \<Rightarrow> (Some (Failed ''failed to describe node group''), w1)
                | Some nodeGroup \<Rightarrow>
                    (case (if disablesAutoscaling nodeGroup
                           then UpdateNodegroupConfig_call env AfterSave nodeGroupName
                                  \<lparr>MinSize = Some count, MaxSize = Some count,
                                   DesiredSize = Some count\<rparr> w1
                           else (True, w1)) of
                       (False, w2) \<Rightarrow>
                         (Some (Failed ''failed to update node group scaling config''), w2)
                     | (True, w2) \<Rightarrow>
                         (case getNodesInNodeGroup env AfterSave nodeGroupName w2 of
                            Inl e \<Rightarrow> (Some (Failed ''failed to get nodes''), w2)
                          | Inr nodesInGroup \<Rightarrow>
                              (let w3 = drainExcess (nat (int (length nodesInGroup) - count))
                                          nodesInGroup w2 in
                               if env AwsWait \<noteq> None
                               then (Some (Failed
                                       ''failed waiting for node group to be active''), w3)
                               else (case DescribeNodegroup env AfterWait nodeGroupName w3 of
                                       None \<Rightarrow>
                                         (Some (Failed
                                            ''failed to describe node group after waiting''), w3)
                                     | Some described \<Rightarrow>
                                         (case UpdateNodegroupConfig_call env AfterWait
                                                 nodeGroupName
                                                 \<lparr>MinSize = None, MaxSize = None,
                                                  DesiredSize = Some count\<rparr> w3 of
                                            (False, w4) \<Rightarrow>
                                              (Some (Failed ''failed to scale node group''), w4)
                                          | (True, w4) \<Rightarrow> (None, w4)))))))))"

definition AWSProvider_RestoreNodePool ::
  "aws_env \<Rightarrow> string \<Rightarrow> aws_world \<Rightarrow> error option \<times> aws_world" where
  "AWSProvider_RestoreNodePool env nodeGroupName w =
     (if env AwsRestoreClient \<noteq> None
      then (Some (Failed ''failed to create kubernetes client''), w)
      else if env AwsGetConfigMap \<noteq> None then (Some (Failed ''failed to get saved config''), w)
      else (case awsConfigMaps w (ConfigMapNamePrefix @ nodeGroupName) of
              None \<Rightarrow> (Some (ErrNoSavedState nodeGroupName), w)
            | Some Malformed \<Rightarrow> (Some (Failed ''failed to parse saved config''), w)
            | Some (Encoded savedConfig) \<Rightarrow>
                (let input =
                       (case SavedScalingConfig savedConfig of
                          None \<Rightarrow> \<lparr>MinSize = None, MaxSize = None,
                                    DesiredSize = Some (SavedDesiredSize savedConfig)\<rparr>
                        | Some saved \<Rightarrow> \<lparr>MinSize = MinSize saved, MaxSize = MaxSize saved,
                                          DesiredSize = Some (SavedDesiredSize savedConfig)\<rparr>) in
                 case regionClient env InRestore nodeGroupName w of
                   Inl e \<Rightarrow> (Some e, w)
                 | Inr w1 \<Rightarrow>
                     (case UpdateNodegroupConfig_call env InRestore nodeGroupName input w1 of
                        (False, w2) \<Rightarrow> (Some (Failed ''failed to restore node group''), w2)
                      | (True, w2) \<Rightarrow> (None, w2)))))"

section \<open>The scaling controller\<close>

text \<open>
  \<^verbatim>\<open>providers.CloudProvider\<close> is the interface of the scaling providers: its two methods
  act on the world of the provider and return an error or none. The Azure provider does
  nothing. The controller keeps one provider per pool name.
\<close>

record 'w CloudProvider =
  ScaleNodePool :: "string \<Rightarrow> int \<Rightarrow> 'w \<Rightarrow> error option \<times> 'w"
  RestoreNodePool :: "string \<Rightarrow> 'w \<Rightarrow> error option \<times> 'w"


definition AWSProvider :: "aws_env \<Rightarrow> aws_world CloudProvider" where
  "AWSProvider env =
     \<lparr>ScaleNodePool = AWSProvider_ScaleNodePool env,
      RestoreNodePool = AWSProvider_RestoreNodePool env\<rparr>"

definition AzureProvider :: "'w CloudProvider" where
  "AzureProvider =
     \<lparr>ScaleNodePool = (\<lambda>nodePoolName count w. (None, w)),
      RestoreNodePool = (\<lambda>nodePoolName w. (None, w))\<rparr>"









section \<open>Notions used to state the properties\<close>

text \<open>
  Evaluating the members of a composite in list order, as long as each answers true:
  the world after the last of them, or \<open>None\<close> when one of them answers false or fails.
\<close>

fun run_true :: "('e, 'w) Provider list \<Rightarrow> Time \<Rightarrow> 'w \<Rightarrow> 'w option" where
  "run_true [] t w = Some w"
| "run_true (provider # providers) t w =
     (case provider t w of
        (Inr True, w') \<Rightarrow> run_true providers t w'
      | _ \<Rightarrow> None)"

text \<open>
  A zone is quiet around the Unix second \<open>u\<close> when none of its transitions lies within
  \<open>margin\<close> seconds of \<open>u\<close>.
\<close>

definition quiet :: "Location \<Rightarrow> int \<Rightarrow> int \<Rightarrow> bool" where
  "quiet l u margin = (\<forall>(w, off') \<in> set (tx l). w + margin \<le> u \<or> u + margin < w)"

text \<open>
  Sample data. New York around the start of daylight saving time in 2024: UTC-5 until
  2024-03-10T07:00:00Z, UTC-4 from then on. Shanghai: UTC+8 throughout.
\<close>

definition NewYork2024 :: Location where
  "NewYork2024 = \<lparr>zone0 = - 18000, tx = [(1710054000, - 14400)]\<rparr>"

definition sample_tzdb :: "string \<Rightarrow> Location option" where
  "sample_tzdb name =
     (if name = ''UTC'' then Some UTC
      else if name = ''Asia/Shanghai'' then Some (FixedZone 28800)
      else if name = ''America/New_York'' then Some NewYork2024
      else None)"

definition office_hours :: StaticProvider where
  "office_hours = NewStaticProvider ''09:00'' ''17:00'' ''Asia/Shanghai'' None"

text \<open>
  The time \<open>t\<close> lies in the range of an event: at or after its start and strictly before
  its end. An event decides the ICS lookup when \<open>t\<close> lies in its range and its summary
  matches a holiday pattern or a work-day pattern.
\<close>

definition inRange :: "Time \<Rightarrow> 'a cachedEvent_scheme \<Rightarrow> bool" where
  "inRange t e = (unixNano (Start e) \<le> unixNano t \<and> unixNano t < unixNano (End e))"

definition decides :: "Regexp list \<Rightarrow> Regexp list \<Rightarrow> Time \<Rightarrow> calendarEvent \<Rightarrow> bool" where
  "decides holiday work t e =
     (inRange t e \<and> (matchAny holiday (Summary e) \<or> matchAny work (Summary e)))"

text \<open>
  Sample data for the calendar providers. A pattern such as \<^verbatim>\<open>.*(off)\<close> matches the
  summaries that contain \<^verbatim>\<open>(off)\<close>. The ICS feed holds one holiday from 2023-04-29 00:00
  to 2023-05-04 00:00, Shanghai time; the Google listing holds one item from 2023-04-29 (a
  date) to 2023-05-04T10:00:00Z.
\<close>

fun containsStr :: "string \<Rightarrow> Regexp" where
  "containsStr sub [] = (sub = [])"
| "containsStr sub (c # cs) = (take (length sub) (c # cs) = sub \<or> containsStr sub cs)"

definition Shanghai :: Location where
  "Shanghai = FixedZone 28800"

definition labour :: calendarEvent where
  "labour = \<lparr>Start = Date (days_from_civil 2023 4 29) 0 0 0 0 Shanghai,
             End = Date (days_from_civil 2023 5 4) 0 0 0 0 Shanghai,
             Summary = ''Labour Day (off)''\<rparr>"

definition sample_feed :: "VEvent list" where
  "sample_feed = [\<lparr>startAt = Some (Start labour), endAt = Some (End labour),
                   summary = Some (Summary labour)\<rparr>]"

definition sample_ics :: ICSCalendarProvider where
  "sample_ics = \<lparr>url = ''https://calendars.example/holidays.ics'', syncInterval = 3600000000000,
                 workPatterns = [containsStr ''(work)''], holidayPatterns = [containsStr ''(off)''],
                 events = Map.empty\<rparr>"

definition labour_index :: "int \<Rightarrow> calendarEvent list option" where
  "labour_index = [19476 \<mapsto> [labour], 19477 \<mapsto> [labour], 19478 \<mapsto> [labour],
                   19479 \<mapsto> [labour], 19480 \<mapsto> [labour]]"

definition sample_parseDay :: "string \<Rightarrow> Time option" where
  "sample_parseDay s =
     (if s = ''2023-04-29'' then Some (Date (days_from_civil 2023 4 29) 0 0 0 0 UTC) else None)"

definition sample_parseRFC3339 :: "string \<Rightarrow> Time option" where
  "sample_parseRFC3339 s =
     (if s = ''2023-05-04T10:00:00Z'' then Some (Date (days_from_civil 2023 5 4) 10 0 0 0 UTC)
      else None)"

definition sample_items :: "GEvent list" where
  "sample_items = [\<lparr>gStart = \<lparr>DateTime = [], DateOnly = ''2023-04-29''\<rparr>,
                    gEnd = \<lparr>DateTime = ''2023-05-04T10:00:00Z'', DateOnly = []\<rparr>,
                    gSummary = ''Labour Day''\<rparr>]"

definition leave :: cachedEvent where
  "leave = \<lparr>Start = Date (days_from_civil 2023 4 29) 0 0 0 0 UTC,
            End = Date (days_from_civil 2023 5 4) 10 0 0 0 UTC\<rparr>"

definition leave_index :: "int \<Rightarrow> cachedEvent list option" where
  "leave_index = [19476 \<mapsto> [leave], 19477 \<mapsto> [leave], 19478 \<mapsto> [leave],
                  19479 \<mapsto> [leave], 19480 \<mapsto> [leave], 19481 \<mapsto> [leave]]"

definition sample_gcal :: GoogleCalendarProvider where
  "sample_gcal = \<lparr>calendarID = ''team'', offTimeEvents = ''Holiday'',
                  cache = \<lparr>cacheEvents = Map.empty, lastSync = Date 0 0 0 0 0 UTC\<rparr>,
                  gcalSyncInterval = 3600000000000, cacheDays = 7\<rparr>"

definition synced_ics :: ICSCalendarProvider where
  "synced_ics = sample_ics\<lparr>events := labour_index\<rparr>"

definition synced_gcal :: GoogleCalendarProvider where
  "synced_gcal = sample_gcal\<lparr>cache := \<lparr>cacheEvents = leave_index,
     lastSync = Date (days_from_civil 2023 4 28) 8 0 0 0 UTC\<rparr>\<rparr>"

definition offsite :: calendarEvent where
  "offsite = labour\<lparr>Summary := ''Team offsite''\<rparr>"

definition golden :: calendarEvent where
  "golden = labour\<lparr>Summary := ''Golden Week (off) (work)''\<rparr>"

definition makeup :: calendarEvent where
  "makeup = labour\<lparr>Summary := ''Make-up day (work)''\<rparr>"

definition noon :: Time where
  "noon = Date (days_from_civil 2023 4 29) 12 0 0 0 Shanghai"

text \<open>
  For the scaling providers: the environment in which no call fails, the answer of a
  cluster that already has an operation, and the requests issued between two worlds.
\<close>

definition calm :: "'s \<Rightarrow> api_error option" where
  "calm site = None"

definition busy :: api_error where
  "busy = GoogleApiError 400 [OtherDetail, Reason ''CLUSTER_ALREADY_HAS_OPERATION'']"

definition issued :: "'r list \<Rightarrow> 'r list \<Rightarrow> 'r list" where
  "issued before after = drop (length before) after"

text \<open>
  The live autoscaling block of the pool agrees with the saved one, in the sense of the
  comparison of \<^verbatim>\<open>RestoreNodePool\<close>, or the saved one has autoscaling enabled.
\<close>

definition autoscalingAgrees :: "string \<Rightarrow> gke_world \<Rightarrow> bool" where
  "autoscalingAgrees nodePoolName w =
     (case (configMaps w (ConfigMapNamePrefix @ nodePoolName),
            find (\<lambda>pool. Name pool = nodePoolName) (nodePools w)) of
        (Some (Encoded savedConfig), Some currentPool) \<Rightarrow>
           autoscalingEnabled (SavedAutoscaling savedConfig)
           \<or> isAutoscalingMatch currentPool savedConfig
      | _ \<Rightarrow> True)"

text \<open>Sample clusters: a pool \<open>batch\<close> on GKE and a node group \<open>batch\<close> on EKS.\<close>

definition worker :: "string \<Rightarrow> string \<Rightarrow> bool \<Rightarrow> Node" where
  "worker name pool cordoned =
     \<lparr>nodeName = name,
      nodeLabels = [''cloud.google.com/gke-nodepool'' \<mapsto> pool,
                    ''eks.amazonaws.com/nodegroup'' \<mapsto> pool,
                    ''topology.kubernetes.io/region'' \<mapsto> ''eu-west-1''],
      Unschedulable = cordoned\<rparr>"

definition gke_sample :: gke_world where
  "gke_sample =
     \<lparr>nodePools = [\<lparr>Name = ''batch'', InitialNodeCount = 2, Autoscaling = None\<rparr>],
      nodes = [worker ''n1'' ''batch'' False, worker ''n2'' ''batch'' True],
      configMaps = Map.empty,
      requests = []\<rparr>"

definition gke_scaled :: gke_world where
  "gke_scaled =
     \<lparr>nodePools = [\<lparr>Name = ''batch'', InitialNodeCount = 0, Autoscaling = None\<rparr>],
      nodes = [],
      configMaps = [''bmw-saver-nodepool-batch''
                      \<mapsto> Encoded \<lparr>NodeCount = 2, SavedAutoscaling = None\<rparr>],
      requests = []\<rparr>"

definition gke_restored :: gke_world where
  "gke_restored =
     gke_scaled\<lparr>nodePools := [\<lparr>Name = ''batch'', InitialNodeCount = 2, Autoscaling = None\<rparr>],
                requests := [SetSize ''batch'' 2]\<rparr>"

definition gke_toggled :: gke_world where
  "gke_toggled =
     gke_scaled\<lparr>nodePools :=
       [\<lparr>Name = ''batch'', InitialNodeCount = 0,
         Autoscaling = Some \<lparr>Enabled = False, MinNodeCount = 0, MaxNodeCount = 0\<rparr>\<rparr>]\<rparr>"

definition eks_sample :: aws_world where
  "eks_sample =
     \<lparr>nodegroups = [''batch'' \<mapsto> \<lparr>ScalingConfig = Some \<lparr>MinSize = Some 1, MaxSize = Some 3,
                                                      DesiredSize = Some 1\<rparr>\<rparr>],
      awsNodes = [worker ''n1'' ''batch'' False],
      awsConfigMaps = Map.empty,
      eksClients = {},
      awsRequests = []\<rparr>"

definition eks_scaled :: aws_world where
  "eks_scaled =
     \<lparr>nodegroups = [''batch'' \<mapsto> \<lparr>ScalingConfig = Some \<lparr>MinSize = Some 1, MaxSize = Some 1,
                                                      DesiredSize = Some 1\<rparr>\<rparr>],
      awsNodes = [worker ''n1'' ''batch'' False],
      awsConfigMaps = [''bmw-saver-nodepool-batch''
                         \<mapsto> Encoded \<lparr>SavedDesiredSize = 2,
                                     SavedScalingConfig = Some \<lparr>MinSize = Some 1, MaxSize = Some 3,
                                                                DesiredSize = None\<rparr>\<rparr>],
      eksClients = {},
      awsRequests = []\<rparr>"





section \<open>Properties of the composite provider\<close>

lemma composite_true_iff:
  "CompositeProvider_IsWorkTime ps t w = (Inr True, w') \<longleftrightarrow> run_true ps t w = Some w'"
proof (induction ps arbitrary: w)
  case Nil
  show ?case by auto
next
  case (Cons p ps)
  obtain r w1 where p: "p t w = (r, w1)" by (cases "p t w")
  show ?case
  proof (cases r)
    case (Inl e)
    with p show ?thesis by simp
  next
    case (Inr b)
    with p Cons.IH [of w1] show ?thesis by (cases b) simp_all
  qed
qed

lemma composite_after_true:
  "run_true pre t w = Some w1 \<Longrightarrow>
   CompositeProvider_IsWorkTime (pre @ post) t w = CompositeProvider_IsWorkTime post t w1"
proof (induction pre arbitrary: w)
  case Nil
  then show ?case by simp
next
  case (Cons p pre)
  obtain r w0 where p: "p t w = (r, w0)" by (cases "p t w")
  from Cons.prems p have r: "r = Inr True" and run: "run_true pre t w0 = Some w1"
    by (auto split: sum.splits bool.splits if_splits)
  from Cons.IH [OF run] p r show ?case by simp
qed

lemma composite_pure:
  "\<forall>p \<in> set ps. \<exists>b. p t w = (Inr b, w) \<Longrightarrow>
   CompositeProvider_IsWorkTime ps t w = (Inr (\<forall>p \<in> set ps. fst (p t w) = Inr True), w)"
proof (induction ps)
  case Nil
  show ?case by simp
next
  case (Cons p ps)
  from Cons.prems obtain b where p: "p t w = (Inr b, w)" by auto
  from Cons.prems have "\<forall>p \<in> set ps. \<exists>b. p t w = (Inr b, w)" by simp
  from Cons.IH [OF this] p show ?case by (cases b) simp_all
qed

text \<open>
  C2. The composite answers true exactly when every member, asked in list order, answers
  true. When the members before \<open>p\<close> all answer true and \<open>p\<close> answers false, the
  composite answers false, and when \<open>p\<close> fails, the composite fails with the error of
  \<open>p\<close>; in both cases the world is the one \<open>p\<close> left, whatever members \<open>post\<close> follow
  it: they are not asked. For members that only read and never fail, the answer is the
  conjunction of the members' answers.
\<close>

theorem CompositeProvider_IsWorkTime_and:
  "(CompositeProvider_IsWorkTime ps t w = (Inr True, w') \<longleftrightarrow> run_true ps t w = Some w')
   \<and> (run_true pre t w = Some w1 \<and> p t w1 = (Inr False, w2) \<longrightarrow>
        CompositeProvider_IsWorkTime (pre @ p # post) t w = (Inr False, w2))
   \<and> (run_true pre t w = Some w1 \<and> p t w1 = (Inl err, w2) \<longrightarrow>
        CompositeProvider_IsWorkTime (pre @ p # post) t w = (Inl err, w2))
   \<and> ((\<forall>q \<in> set ps. \<exists>b. q t w = (Inr b, w)) \<longrightarrow>
        CompositeProvider_IsWorkTime ps t w =
          (Inr (\<forall>q \<in> set ps. fst (q t w) = Inr True), w))"
proof (intro conjI impI)
  show "CompositeProvider_IsWorkTime ps t w = (Inr True, w') \<longleftrightarrow> run_true ps t w = Some w'"
    by (rule composite_true_iff)
next
  assume "run_true pre t w = Some w1 \<and> p t w1 = (Inr False, w2)"
  then show "CompositeProvider_IsWorkTime (pre @ p # post) t w = (Inr False, w2)"
    by (simp add: composite_after_true)
next
  assume "run_true pre t w = Some w1 \<and> p t w1 = (Inl err, w2)"
  then show "CompositeProvider_IsWorkTime (pre @ p # post) t w = (Inl err, w2)"
    by (simp add: composite_after_true)
next
  assume "\<forall>q \<in> set ps. \<exists>b. q t w = (Inr b, w)"
  then show "CompositeProvider_IsWorkTime ps t w =
      (Inr (\<forall>q \<in> set ps. fst (q t w) = Inr True), w)"
    by (rule composite_pure)
qed

text \<open>
  Three members that count the calls made: the first answers true, the second answers
  false (or fails), the third is never asked, and the count stays at two.
\<close>

theorem CompositeProvider_IsWorkTime_and_witness:
  "CompositeProvider_IsWorkTime
      ([\<lambda>t n. (Inr True, Suc n)] @ (\<lambda>t n. (Inr False, Suc n)) # [\<lambda>t n. (Inl ''down'', Suc n)])
      \<lparr>unixNano = 0, loc = UTC\<rparr> (0::nat) = (Inr False, 2)
   \<and> CompositeProvider_IsWorkTime
      ([\<lambda>t n. (Inr True, Suc n)] @ (\<lambda>t n. (Inl ''down'', Suc n)) # [\<lambda>t n. (Inr True, Suc n)])
      \<lparr>unixNano = 0, loc = UTC\<rparr> (0::nat) = (Inl ''down'', 2)
   \<and> CompositeProvider_IsWorkTime [\<lambda>t n. (Inr True, n), \<lambda>t n. (Inr False, n)]
      \<lparr>unixNano = 0, loc = UTC\<rparr> (0::nat) = (Inr False, 0)"
proof (intro conjI)
  let ?t = "\<lparr>unixNano = 0, loc = UTC\<rparr>"
  have pre: "run_true [\<lambda>t n. (Inr True, Suc n) :: (string + bool) \<times> nat] ?t 0 = Some 1"
    by simp
  show "CompositeProvider_IsWorkTime
      ([\<lambda>t n. (Inr True, Suc n)] @ (\<lambda>t n. (Inr False, Suc n)) # [\<lambda>t n. (Inl ''down'', Suc n)])
      ?t (0::nat) = (Inr False, 2)"
    using CompositeProvider_IsWorkTime_and
      [where pre = "[\<lambda>t n. (Inr True, Suc n)]" and t = ?t and w = "0::nat" and ?w1.0 = 1
         and p = "\<lambda>t n. (Inr False, Suc n)" and ?w2.0 = 2
         and post = "[\<lambda>t n. (Inl ''down'', Suc n)]"] pre
    by simp
  show "CompositeProvider_IsWorkTime
      ([\<lambda>t n. (Inr True, Suc n)] @ (\<lambda>t n. (Inl ''down'', Suc n)) # [\<lambda>t n. (Inr True, Suc n)])
      ?t (0::nat) = (Inl ''down'', 2)"
    using CompositeProvider_IsWorkTime_and
      [where pre = "[\<lambda>t n. (Inr True, Suc n)]" and t = ?t and w = "0::nat" and ?w1.0 = 1
         and p = "\<lambda>t n. (Inl ''down'', Suc n)" and ?w2.0 = 2 and err = "''down''"
         and post = "[\<lambda>t n. (Inr True, Suc n)]"] pre
    by simp
  show "CompositeProvider_IsWorkTime [\<lambda>t n. (Inr True, n), \<lambda>t n. (Inr False, n)]
      ?t (0::nat) = (Inr False, 0)"
    using CompositeProvider_IsWorkTime_and
      [where ps = "[\<lambda>t n. (Inr True, n), \<lambda>t n. (Inr False, n)]" and t = ?t and w = "0::nat"]
    by simp
qed

section \<open>Properties of the static provider\<close>

lemmas eval_time = Date_def Location_lookup_def FixedZone_def UTC_def days_from_civil_def
  civilDay_def civilSec_def Unix_def In_def Time_Weekday_def isWorkDay_def
  parseClock_def digitVal_def isDigit_def alpha_def omega_def

lemma StaticProvider_IsWorkTime_valid:
  assumes "tzdb (TimeZone p) = Some location"
    and "parseClock (StartTime p) = Some (sh, sm)"
    and "parseClock (EndTime p) = Some (eh, em)"
  shows "StaticProvider_IsWorkTime tzdb p now =
           Inr (isWorkDay (WorkDays p) (Time_Weekday (In now location))
                \<and> unixNano (Date (civilDay (In now location)) sh sm 0 0 location) < unixNano now
                \<and> unixNano now < unixNano (Date (civilDay (In now location)) eh em 0 0 location))"
  using assms by (simp add: StaticProvider_IsWorkTime_def Let_def After_def Before_def In_def)

lemma StaticProvider_IsWorkTime_true_cases:
  assumes "StaticProvider_IsWorkTime tzdb p now = Inr True"
  obtains location sh sm eh em where "tzdb (TimeZone p) = Some location"
    and "parseClock (StartTime p) = Some (sh, sm)"
    and "parseClock (EndTime p) = Some (eh, em)"
  using assms
  by (auto simp: StaticProvider_IsWorkTime_def Let_def split: option.splits if_splits)

text \<open>
  C1. \<^verbatim>\<open>IsWorkTime\<close> answers true exactly when the zone resolves, both clock strings
  parse, the weekday of the time in the configured zone is a work day, and the time is
  strictly after the start and strictly before the end, both anchored by \<^verbatim>\<open>Date\<close> to
  the civil day of the time in that zone. At the start instant and at the end instant the
  answer is false, and on a day that is not a work day the answer is false whatever the
  time of day.
\<close>

theorem StaticProvider_IsWorkTime_iff:
  "(StaticProvider_IsWorkTime tzdb p now = Inr True \<longleftrightarrow>
      (\<exists>location sh sm eh em.
          tzdb (TimeZone p) = Some location
        \<and> parseClock (StartTime p) = Some (sh, sm)
        \<and> parseClock (EndTime p) = Some (eh, em)
        \<and> isWorkDay (WorkDays p) (Time_Weekday (In now location))
        \<and> unixNano (Date (civilDay (In now location)) sh sm 0 0 location) < unixNano now
        \<and> unixNano now < unixNano (Date (civilDay (In now location)) eh em 0 0 location)))
   \<and> (tzdb (TimeZone p) = Some location
        \<and> parseClock (StartTime p) = Some (sh, sm) \<and> parseClock (EndTime p) = Some (eh, em)
        \<and> (unixNano now = unixNano (Date (civilDay (In now location)) sh sm 0 0 location)
            \<or> unixNano now = unixNano (Date (civilDay (In now location)) eh em 0 0 location))
        \<longrightarrow> StaticProvider_IsWorkTime tzdb p now = Inr False)
   \<and> (tzdb (TimeZone p) = Some location
        \<and> \<not> isWorkDay (WorkDays p) (Time_Weekday (In now location))
        \<longrightarrow> StaticProvider_IsWorkTime tzdb p now = Inr False)"
proof (intro conjI impI)
  show "StaticProvider_IsWorkTime tzdb p now = Inr True \<longleftrightarrow>
      (\<exists>location sh sm eh em.
          tzdb (TimeZone p) = Some location
        \<and> parseClock (StartTime p) = Some (sh, sm)
        \<and> parseClock (EndTime p) = Some (eh, em)
        \<and> isWorkDay (WorkDays p) (Time_Weekday (In now location))
        \<and> unixNano (Date (civilDay (In now location)) sh sm 0 0 location) < unixNano now
        \<and> unixNano now < unixNano (Date (civilDay (In now location)) eh em 0 0 location))"
    (is "?L \<longleftrightarrow> ?R")
  proof
    assume l: ?L
    then obtain location sh sm eh em where v: "tzdb (TimeZone p) = Some location"
      "parseClock (StartTime p) = Some (sh, sm)" "parseClock (EndTime p) = Some (eh, em)"
      by (rule StaticProvider_IsWorkTime_true_cases)
    from l StaticProvider_IsWorkTime_valid [of tzdb p location sh sm eh em now] v show ?R by auto
  next
    assume ?R
    then obtain location sh sm eh em where v: "tzdb (TimeZone p) = Some location"
      "parseClock (StartTime p) = Some (sh, sm)" "parseClock (EndTime p) = Some (eh, em)"
      and r: "isWorkDay (WorkDays p) (Time_Weekday (In now location))"
        "unixNano (Date (civilDay (In now location)) sh sm 0 0 location) < unixNano now"
        "unixNano now < unixNano (Date (civilDay (In now location)) eh em 0 0 location)"
      by blast
    from StaticProvider_IsWorkTime_valid [of tzdb p location sh sm eh em now] v r
    show ?L by simp
  qed
next
  assume a: "tzdb (TimeZone p) = Some location
        \<and> parseClock (StartTime p) = Some (sh, sm) \<and> parseClock (EndTime p) = Some (eh, em)
        \<and> (unixNano now = unixNano (Date (civilDay (In now location)) sh sm 0 0 location)
            \<or> unixNano now = unixNano (Date (civilDay (In now location)) eh em 0 0 location))"
  then have v: "tzdb (TimeZone p) = Some location"
      "parseClock (StartTime p) = Some (sh, sm)" "parseClock (EndTime p) = Some (eh, em)"
    by simp_all
  from a StaticProvider_IsWorkTime_valid [of tzdb p location sh sm eh em now]
  show "StaticProvider_IsWorkTime tzdb p now = Inr False" by auto
next
  assume "tzdb (TimeZone p) = Some location
        \<and> \<not> isWorkDay (WorkDays p) (Time_Weekday (In now location))"
  then show "StaticProvider_IsWorkTime tzdb p now = Inr False"
    by (simp add: StaticProvider_IsWorkTime_def Let_def)
qed

text \<open>
  Office hours 09:00 to 17:00, Monday to Friday, in Shanghai: Wednesday 2024-03-13 at
  10:00 is work time; 09:00 and 17:00 sharp are not, nor is 09:00 UTC, which is 17:00 in
  Shanghai; Saturday 2024-03-16 at 10:00 is not.
\<close>

theorem StaticProvider_IsWorkTime_iff_witness:
  "StaticProvider_IsWorkTime sample_tzdb office_hours
      (Date (days_from_civil 2024 3 13) 9 0 0 0 UTC) = Inr False
   \<and> StaticProvider_IsWorkTime sample_tzdb office_hours
      (Date (days_from_civil 2024 3 13) 10 0 0 0 (FixedZone 28800)) = Inr True
   \<and> StaticProvider_IsWorkTime sample_tzdb office_hours
      (Date (days_from_civil 2024 3 13) 9 0 0 0 (FixedZone 28800)) = Inr False
   \<and> StaticProvider_IsWorkTime sample_tzdb office_hours
      (Date (days_from_civil 2024 3 13) 17 0 0 0 (FixedZone 28800)) = Inr False
   \<and> StaticProvider_IsWorkTime sample_tzdb office_hours
      (Date (days_from_civil 2024 3 16) 10 0 0 0 (FixedZone 28800)) = Inr False"
proof -
  have z: "sample_tzdb (TimeZone office_hours) = Some (FixedZone 28800)"
    by (simp add: sample_tzdb_def office_hours_def NewStaticProvider_def)
  have st: "parseClock (StartTime office_hours) = Some (9, 0)"
    by (simp add: office_hours_def NewStaticProvider_def eval_time)
  have en: "parseClock (EndTime office_hours) = Some (17, 0)"
    by (simp add: office_hours_def NewStaticProvider_def eval_time)
  note c1 = StaticProvider_IsWorkTime_iff [where tzdb = sample_tzdb and p = office_hours
      and location = "FixedZone 28800" and sh = 9 and sm = 0 and eh = 17 and em = 0]
  have a: "StaticProvider_IsWorkTime sample_tzdb office_hours
      (Date (days_from_civil 2024 3 13) 10 0 0 0 (FixedZone 28800)) = Inr True"
    apply (rule c1 [THEN conjunct1, THEN iffD2])
    apply (rule exI [of _ "FixedZone 28800"])
    apply (rule exI [of _ 9], rule exI [of _ 0], rule exI [of _ 17], rule exI [of _ 0])
    apply (simp add: z st en)
    apply (simp add: office_hours_def NewStaticProvider_def defaultWorkDays_def eval_time)
    done
  have b: "StaticProvider_IsWorkTime sample_tzdb office_hours
      (Date (days_from_civil 2024 3 13) 9 0 0 0 (FixedZone 28800)) = Inr False"
    apply (rule c1 [THEN conjunct2, THEN conjunct1, rule_format])
    apply (simp add: z st en)
    apply (simp add: eval_time)
    done
  have c: "StaticProvider_IsWorkTime sample_tzdb office_hours
      (Date (days_from_civil 2024 3 13) 17 0 0 0 (FixedZone 28800)) = Inr False"
    apply (rule c1 [THEN conjunct2, THEN conjunct1, rule_format])
    apply (simp add: z st en)
    apply (simp add: eval_time)
    done
  have d: "StaticProvider_IsWorkTime sample_tzdb office_hours
      (Date (days_from_civil 2024 3 16) 10 0 0 0 (FixedZone 28800)) = Inr False"
    apply (rule c1 [THEN conjunct2, THEN conjunct2, rule_format])
    apply (simp add: z)
    apply (simp add: office_hours_def NewStaticProvider_def defaultWorkDays_def eval_time)
    done
  have e: "StaticProvider_IsWorkTime sample_tzdb office_hours
      (Date (days_from_civil 2024 3 13) 9 0 0 0 UTC) = Inr False"
    apply (rule c1 [THEN conjunct2, THEN conjunct1, rule_format])
    apply (simp add: z st en)
    apply (simp add: eval_time)
    done
  from a b c d e show ?thesis by simp
qed

lemma lookup_tx_cong:
  "\<forall>(w, off') \<in> set txs. (sec < w) = (u < w) \<Longrightarrow>
   lookup_tx txs sec offset zs = lookup_tx txs u offset zs"
  by (induction txs arbitrary: offset zs) auto

lemma Location_lookup_quiet:
  assumes "quiet l u margin" and "u - margin \<le> sec" and "sec \<le> u + margin"
  shows "Location_lookup l sec = Location_lookup l u"
  unfolding Location_lookup_def
proof (rule lookup_tx_cong)
  from assms show "\<forall>(w, off') \<in> set (tx l). (sec < w) = (u < w)"
    by (fastforce simp: quiet_def)
qed

lemma Date_quiet:
  assumes q: "quiet l u (86400 + \<bar>offset\<bar>)"
    and off: "fst (Location_lookup l u) = offset"
    and day: "day = (u + offset) div 86400"
    and tod: "0 \<le> hour * 3600 + minute * 60 + sec" "hour * 3600 + minute * 60 + sec < 86400"
  shows "unixNano (Date day hour minute sec nsec l) =
           (day * 86400 + hour * 3600 + minute * 60 + sec - offset) * 1000000000 + nsec"
proof -
  define c where "c = day * 86400 + hour * 3600 + minute * 60 + sec"
  have d1: "day * 86400 \<le> u + offset" and d2: "u + offset < day * 86400 + 86400"
    using day by (simp_all add: algebra_simps)
  have c1: "u - (86400 + \<bar>offset\<bar>) \<le> c" and c2: "c \<le> u + (86400 + \<bar>offset\<bar>)"
    using d1 d2 tod by (simp_all add: c_def)
  have lc: "Location_lookup l c = Location_lookup l u"
    by (rule Location_lookup_quiet [OF q c1 c2])
  have u1: "u - (86400 + \<bar>offset\<bar>) \<le> c - offset" and u2: "c - offset \<le> u + (86400 + \<bar>offset\<bar>)"
    using d1 d2 tod by (simp_all add: c_def)
  have lu: "Location_lookup l (c - offset) = Location_lookup l u"
    by (rule Location_lookup_quiet [OF q u1 u2])
  obtain zs ze where tr: "Location_lookup l u = (offset, zs, ze)"
    using off by (cases "Location_lookup l u") auto
  have "unixNano (Date day hour minute sec nsec l) = (c - offset) * 1000000000 + nsec"
    using lc lu tr by (simp add: Date_def Let_def c_def [symmetric])
  then show ?thesis by (simp add: c_def)
qed

lemma parseClock_range:
  assumes "parseClock s = Some (h, m)"
  shows "0 \<le> h \<and> h < 24 \<and> 0 \<le> m \<and> m < 60"
  using assms
  by (auto simp: parseClock_def split: option.splits list.splits if_splits)

text \<open>
  C10, as amended. When the end clock time is not later than the start clock time,
  \<^verbatim>\<open>IsWorkTime\<close> does not answer true at any time around which the configured zone is
  quiet: no transition within a day plus the current offset of the time. In a zone
  without transitions that is every time.
\<close>

theorem StaticProvider_end_before_start_never_work:
  assumes loc: "tzdb (TimeZone p) = Some location"
    and quiet: "quiet location (Unix now)
                  (86400 + \<bar>fst (Location_lookup location (Unix now))\<bar>)"
    and st: "parseClock (StartTime p) = Some (sh, sm)"
    and en: "parseClock (EndTime p) = Some (eh, em)"
    and le: "eh * 60 + em \<le> sh * 60 + sm"
  shows "StaticProvider_IsWorkTime tzdb p now \<noteq> Inr True"
proof -
  let ?n = "In now location"
  define offset where "offset = fst (Location_lookup location (Unix now))"
  have day: "civilDay ?n = (Unix now + offset) div 86400"
    by (simp add: civilDay_def civilSec_def In_def Unix_def offset_def)
  from parseClock_range [OF st] parseClock_range [OF en]
  have r: "0 \<le> sh" "sh < 24" "0 \<le> sm" "sm < 60" "0 \<le> eh" "eh < 24" "0 \<le> em" "em < 60"
    by simp_all
  have s: "unixNano (Date (civilDay ?n) sh sm 0 0 location) =
             (civilDay ?n * 86400 + sh * 3600 + sm * 60 + 0 - offset) * 1000000000 + 0"
    using quiet r by (intro Date_quiet [where u = "Unix now"]) (simp_all add: offset_def day)
  have e: "unixNano (Date (civilDay ?n) eh em 0 0 location) =
             (civilDay ?n * 86400 + eh * 3600 + em * 60 + 0 - offset) * 1000000000 + 0"
    using quiet r by (intro Date_quiet [where u = "Unix now"]) (simp_all add: offset_def day)
  have "unixNano (Date (civilDay ?n) eh em 0 0 location)
          \<le> unixNano (Date (civilDay ?n) sh sm 0 0 location)"
    using le by (simp add: s e)
  then show ?thesis
    using StaticProvider_IsWorkTime_valid [of tzdb p location sh sm eh em now] loc st en
    by auto
qed

text \<open>
  An overnight window 22:00 to 06:00 in Shanghai at 23:00, and the window 02:15 to 01:45
  in New York a week after the transition.
\<close>

theorem StaticProvider_end_before_start_never_work_witness:
  "StaticProvider_IsWorkTime sample_tzdb
        \<lparr>StartTime = ''22:00'', EndTime = ''06:00'', TimeZone = ''Asia/Shanghai'',
         WorkDays = defaultWorkDays\<rparr>
        (Date (days_from_civil 2024 3 13) 23 0 0 0 (FixedZone 28800)) \<noteq> Inr True
   \<and> StaticProvider_IsWorkTime sample_tzdb
        \<lparr>StartTime = ''02:15'', EndTime = ''01:45'', TimeZone = ''America/New_York'',
         WorkDays = [Sunday \<mapsto> True]\<rparr>
        (Date (days_from_civil 2024 3 17) 6 0 0 0 UTC) \<noteq> Inr True"
proof -
  have a: "StaticProvider_IsWorkTime sample_tzdb
        \<lparr>StartTime = ''22:00'', EndTime = ''06:00'', TimeZone = ''Asia/Shanghai'',
         WorkDays = defaultWorkDays\<rparr>
        (Date (days_from_civil 2024 3 13) 23 0 0 0 (FixedZone 28800)) \<noteq> Inr True"
    by (rule StaticProvider_end_before_start_never_work [where location = "FixedZone 28800" and sh = 22 and sm = 0 and eh = 6 and em = 0])
      (simp_all add: sample_tzdb_def quiet_def eval_time)
  have b: "StaticProvider_IsWorkTime sample_tzdb
        \<lparr>StartTime = ''02:15'', EndTime = ''01:45'', TimeZone = ''America/New_York'',
         WorkDays = [Sunday \<mapsto> True]\<rparr>
        (Date (days_from_civil 2024 3 17) 6 0 0 0 UTC) \<noteq> Inr True"
    by (rule StaticProvider_end_before_start_never_work [where location = NewYork2024 and sh = 2 and sm = 15 and eh = 1 and em = 45])
      (simp_all add: sample_tzdb_def quiet_def NewYork2024_def eval_time)
  from a b show ?thesis by simp
qed

text \<open>
  C10, as stated, fails on the day of a transition. On Sunday 2024-03-10 the wall clock
  of New York jumps from 02:00 to 03:00. \<^verbatim>\<open>Date\<close> resolves the skipped start 02:15 to
  06:15 UTC and the end 01:45 to 06:45 UTC, so with start 02:15 and end 01:45 the
  provider answers true at 06:30 UTC.
\<close>

theorem StaticProvider_end_before_start_counterexample:
  "parseClock ''02:15'' = Some (2, 15) \<and> parseClock ''01:45'' = Some (1, 45)
   \<and> StaticProvider_IsWorkTime sample_tzdb
        \<lparr>StartTime = ''02:15'', EndTime = ''01:45'', TimeZone = ''America/New_York'',
         WorkDays = [Sunday \<mapsto> True]\<rparr>
        (Date (days_from_civil 2024 3 10) 6 30 0 0 UTC) = Inr True"
  by (simp add: StaticProvider_IsWorkTime_def sample_tzdb_def NewYork2024_def After_def
      Before_def eval_time)

section \<open>Properties of the calendar providers\<close>

subsection \<open>The indexing loop ends in a zone without transitions\<close>

lemma sum3:
  fixes a b d r s :: int
  assumes "b * 60 + d = s" and "a * 3600 + s = r"
  shows "a * 3600 + b * 60 + d = r"
  using assms by simp

lemma clock_split:
  "((x::int) mod 86400) div 3600 * 3600 + ((x mod 86400) mod 3600) div 60 * 60 + (x mod 86400) mod 60
     = x mod 86400"
proof -
  let ?r = "x mod 86400"
  have "?r mod 3600 mod 60 = ?r mod 60"
    by (rule mod_mod_cancel) simp
  with div_mult_mod_eq [of "?r mod 3600" 60]
  have "?r mod 3600 div 60 * 60 + ?r mod 60 = ?r mod 3600" by simp
  then show ?thesis by (rule sum3) (rule div_mult_mod_eq)
qed

lemma Location_lookup_fixed: "tx l = [] \<Longrightarrow> Location_lookup l sec = (zone0 l, alpha, omega)"
  by (simp add: Location_lookup_def)

lemma Date_fixed:
  "tx l = [] \<Longrightarrow>
   Date day hour minute sec nsec l =
     \<lparr>unixNano = (day * 86400 + hour * 3600 + minute * 60 + sec - zone0 l) * 1000000000 + nsec,
      loc = l\<rparr>"
  by (simp add: Date_def Location_lookup_fixed Let_def)

lemma next_day_sum:
  fixes q r a b d x :: int
  assumes "a * 3600 + b * 60 + d = r" and "q * 86400 + r = x"
  shows "(q + 1) * 86400 + a * 3600 + b * 60 + d = x + 86400"
  using assms by (simp add: algebra_simps)

lemma AddDate_days_fixed:
  assumes "tx (loc t) = []"
  shows "AddDate_days t 1 = t\<lparr>unixNano := unixNano t + 86400000000000\<rparr>"
proof -
  let ?c = "civilSec t"
  have c: "?c = Unix t + zone0 (loc t)"
    using assms by (simp add: civilSec_def Location_lookup_fixed)
  have dm: "?c div 86400 * 86400 + ?c mod 86400 = ?c" by simp
  have s: "(civilDay t + 1) * 86400 + (?c mod 86400) div 3600 * 3600
          + ((?c mod 86400) mod 3600) div 60 * 60 + (?c mod 86400) mod 60 = ?c + 86400"
    unfolding civilDay_def by (rule next_day_sum [OF clock_split dm])
  have n: "Unix t * 1000000000 + Nanosecond t = unixNano t"
    by (simp add: Unix_def Nanosecond_def)
  have "unixNano (AddDate_days t 1) = (?c + 86400 - zone0 (loc t)) * 1000000000 + Nanosecond t"
    unfolding AddDate_days_def Date_fixed [OF assms] by (simp only: s Time.simps)
  also have "\<dots> = (Unix t + 86400) * 1000000000 + Nanosecond t"
    by (simp only: c) simp
  also have "\<dots> = unixNano t + 86400000000000"
    using n by (simp add: algebra_simps)
  finally have u: "unixNano (AddDate_days t 1) = unixNano t + 86400000000000" .
  have l: "loc (AddDate_days t 1) = loc t"
    unfolding AddDate_days_def Date_fixed [OF assms] by (simp only: Time.simps)
  have m: "Time.more (AddDate_days t 1) = Time.more t"
    unfolding AddDate_days_def Date_fixed [OF assms] by (simp only: Time.simps) simp
  show ?thesis using u l m by (simp add: Time.equality)
qed

lemma storeDays_fixed:
  assumes "tx (loc current) = []"
  shows "\<exists>m'. storeDays current end' entry m = Some m'"
  using assms
proof (induction "nat (unixNano end' - unixNano current)" arbitrary: current m rule: less_induct)
  case less
  show ?case
  proof (cases "Before current end'")
    case False
    then show ?thesis by (subst storeDays.simps) simp
  next
    case True
    let ?next = "AddDate_days current 1"
    have nx: "?next = current\<lparr>unixNano := unixNano current + 86400000000000\<rparr>"
      by (rule AddDate_days_fixed [OF less.prems])
    have "nat (unixNano end' - unixNano ?next) < nat (unixNano end' - unixNano current)"
      using True by (simp add: nx Before_def)
    moreover have "tx (loc ?next) = []" using less.prems by (simp add: nx)
    ultimately have "\<exists>m'. storeDays ?next end' entry
        (m(dateKey current \<mapsto> appendTo (m (dateKey current)) entry)) = Some m'"
      by (rule less.hyps)
    then show ?thesis using True by (subst storeDays.simps) simp
  qed
qed

lemma ICS_index_fixed:
  assumes "\<forall>ev \<in> set calendar. \<forall>s. startAt ev = Some s \<longrightarrow> tx (loc s) = []"
  shows "\<exists>m'. ICS_index calendar m = Some m'"
  using assms
proof (induction calendar arbitrary: m)
  case Nil
  show ?case by simp
next
  case (Cons ev rest)
  then have rest: "\<And>m. \<exists>m'. ICS_index rest m = Some m'" by simp
  show ?case
  proof (cases "startAt ev")
    case None
    with rest show ?thesis by simp
  next
    case (Some s)
    with Cons.prems have fx: "tx (loc s) = []" by simp
    show ?thesis
    proof (cases "summary ev")
      case None
      with Some rest show ?thesis by (simp add: Let_def)
    next
      case sm: (Some label)
      define e where "e = (case endAt ev of None \<Rightarrow> AddDate_days s 1 | Some e \<Rightarrow> e)"
      obtain m1 where "storeDays s e \<lparr>Start = s, End = e, Summary = label\<rparr> m = Some m1"
        using storeDays_fixed [OF fx, of e "\<lparr>Start = s, End = e, Summary = label\<rparr>" m] by blast
      with Some sm rest [of m1] show ?thesis by (simp add: Let_def e_def)
    qed
  qed
qed


lemma Google_index_fixed:
  assumes "\<forall>ev \<in> set items. \<forall>s. eventTime pr pd (gStart ev) = Some s \<longrightarrow> tx (loc s) = []"
  shows "\<exists>m'. Google_index pr pd items m = Some m'"
  using assms
proof (induction items arbitrary: m)
  case Nil
  show ?case by simp
next
  case (Cons ev rest)
  then have rest: "\<And>m. \<exists>m'. Google_index pr pd rest m = Some m'" by simp
  show ?case
  proof (cases "eventTime pr pd (gStart ev)")
    case None
    with rest show ?thesis by simp
  next
    case (Some s)
    with Cons.prems have fx: "tx (loc s) = []" by simp
    show ?thesis
    proof (cases "eventTime pr pd (gEnd ev)")
      case None
      with Some rest show ?thesis by simp
    next
      case en: (Some e)
      obtain m1 where "storeDays s e \<lparr>Start = s, End = e\<rparr> m = Some m1"
        using storeDays_fixed [OF fx, of e "\<lparr>Start = s, End = e\<rparr>" m] by blast
      with Some en rest [of m1] show ?thesis by simp
    qed
  qed
qed

subsection \<open>Lookup\<close>

lemma inRange_Before: "(\<not> Before t (Start e) \<and> Before t (End e)) = inRange t e"
  by (auto simp: inRange_def Before_def)

lemma Google_scan_iff: "Google_scan t evs = (\<not> (\<exists>e \<in> set evs. inRange t e))"
  by (induction evs) (auto simp: inRange_Before)

lemma ICS_scan_False:
  "\<not> ICS_scan holiday work t evs \<Longrightarrow>
   \<exists>e \<in> set evs. inRange t e \<and> matchAny holiday (Summary e)"
  by (induction evs) (auto simp: inRange_Before split: if_splits)

lemma ICS_scan_filter:
  "ICS_scan holiday work t (filter (inRange t) evs) = ICS_scan holiday work t evs"
  by (induction evs) (auto simp: inRange_Before)

lemma ICS_scan_skip:
  "\<forall>x \<in> set pre. \<not> decides holiday work t x \<Longrightarrow>
   ICS_scan holiday work t (pre @ rest) = ICS_scan holiday work t rest"
  by (induction pre) (auto simp: inRange_Before decides_def)

lemma ICS_scan_drop:
  "\<not> decides holiday work t e \<Longrightarrow>
   ICS_scan holiday work t (pre @ e # post) = ICS_scan holiday work t (pre @ post)"
  by (induction pre) (auto simp: inRange_Before decides_def)

lemmas eval_cal = eval_time AddDate_days_def dateKey_def Before_def Nanosecond_def appendTo_def
  Shanghai_def Let_def

lemma labour_times:
  "Start labour = \<lparr>unixNano = 1682697600000000000, loc = Shanghai\<rparr>"
  "End labour = \<lparr>unixNano = 1683129600000000000, loc = Shanghai\<rparr>"
  "Summary labour = ''Labour Day (off)''"
  by (simp_all add: labour_def eval_time Shanghai_def)

lemma leave_times:
  "Start leave = \<lparr>unixNano = 1682726400000000000, loc = UTC\<rparr>"
  "End leave = \<lparr>unixNano = 1683194400000000000, loc = UTC\<rparr>"
  by (simp_all add: leave_def eval_time)

lemma ICS_index_sample: "ICS_index sample_feed Map.empty = Some labour_index"
proof -
  have e: "labour = \<lparr>Start = Start labour, End = End labour, Summary = Summary labour\<rparr>"
    by simp
  have "storeDays (Start labour) (End labour) labour Map.empty = Some labour_index"
    unfolding labour_times labour_index_def
    by (simp add: storeDays.simps eval_cal)
  then show ?thesis
    by (simp add: sample_feed_def e [symmetric])
qed

lemma Google_index_sample:
  "Google_index sample_parseRFC3339 sample_parseDay sample_items Map.empty = Some leave_index"
proof -
  have s: "eventTime sample_parseRFC3339 sample_parseDay \<lparr>DateTime = [], DateOnly = ''2023-04-29''\<rparr>
             = Some (Start leave)"
    by (simp add: eventTime_def sample_parseDay_def leave_def)
  have e: "eventTime sample_parseRFC3339 sample_parseDay 
             \<lparr>DateTime = ''2023-05-04T10:00:00Z'', DateOnly = []\<rparr> = Some (End leave)"
    by (simp add: eventTime_def sample_parseRFC3339_def leave_def)
  have l: "leave = \<lparr>Start = Start leave, End = End leave\<rparr>" by simp
  have "storeDays (Start leave) (End leave) leave Map.empty = Some leave_index"
    unfolding leave_times leave_index_def
    by (simp add: storeDays.simps eval_cal)
  then show ?thesis
    by (simp add: sample_items_def s e l [symmetric])
qed

text \<open>
  C3. When the cache has no entry for the day key of the time, both lookups answer true.
  The Google lookup answers false exactly when an event filed under that day has the time
  in its range, start included and end excluded. The ICS lookup answers false only when
  such an event matches a holiday pattern, and events whose range does not hold the time
  play no part in its answer.
\<close>

theorem calendar_lookup_half_open:
  "(events p (dateKey t) = None \<longrightarrow> ICSCalendarProvider_IsWorkTime p t = Inr True)
   \<and> (cacheEvents (cache g) (dateKey t) = None \<longrightarrow>
        GoogleCalendarProvider_IsWorkTime g t = Inr True)
   \<and> (cacheEvents (cache g) (dateKey t) = Some gevs \<longrightarrow>
        GoogleCalendarProvider_IsWorkTime g t = Inr (\<not> (\<exists>e \<in> set gevs. inRange t e)))
   \<and> (ICSCalendarProvider_IsWorkTime p t = Inr False \<longrightarrow>
        (\<exists>evs e. events p (dateKey t) = Some evs \<and> e \<in> set evs \<and> inRange t e
           \<and> matchAny (holidayPatterns p) (Summary e)))
   \<and> (events p (dateKey t) = Some evs \<longrightarrow>
        ICSCalendarProvider_IsWorkTime p t =
          ICSCalendarProvider_IsWorkTime
            (p\<lparr>events := (events p)(dateKey t \<mapsto> filter (inRange t) evs)\<rparr>) t)"
proof (intro conjI impI)
  assume "events p (dateKey t) = None"
  then show "ICSCalendarProvider_IsWorkTime p t = Inr True"
    by (simp add: ICSCalendarProvider_IsWorkTime_def)
next
  assume "cacheEvents (cache g) (dateKey t) = None"
  then show "GoogleCalendarProvider_IsWorkTime g t = Inr True"
    by (simp add: GoogleCalendarProvider_IsWorkTime_def)
next
  assume "cacheEvents (cache g) (dateKey t) = Some gevs"
  then show "GoogleCalendarProvider_IsWorkTime g t = Inr (\<not> (\<exists>e \<in> set gevs. inRange t e))"
    by (simp add: GoogleCalendarProvider_IsWorkTime_def Google_scan_iff)
next
  assume f: "ICSCalendarProvider_IsWorkTime p t = Inr False"
  then obtain evs where evs: "events p (dateKey t) = Some evs"
    and sc: "\<not> ICS_scan (holidayPatterns p) (workPatterns p) t evs"
    by (auto simp: ICSCalendarProvider_IsWorkTime_def split: option.splits)
  from ICS_scan_False [OF sc] evs
  show "\<exists>evs e. events p (dateKey t) = Some evs \<and> e \<in> set evs \<and> inRange t e
           \<and> matchAny (holidayPatterns p) (Summary e)"
    by blast
next
  assume "events p (dateKey t) = Some evs"
  then show "ICSCalendarProvider_IsWorkTime p t =
          ICSCalendarProvider_IsWorkTime
            (p\<lparr>events := (events p)(dateKey t \<mapsto> filter (inRange t) evs)\<rparr>) t"
    by (simp add: ICSCalendarProvider_IsWorkTime_def ICS_scan_filter)
qed

text \<open>
  The holiday from 2023-04-29 00:00 to 2023-05-04 00:00: not work time at 2023-04-29
  00:00, work time at 2023-05-04 00:00. The Google item ends at 10:00 on a day it is filed
  under: not work time one nanosecond before 10:00, work time at 10:00.
\<close>

theorem calendar_lookup_half_open_witness:
  "ICSCalendarProvider_IsWorkTime synced_ics
      (Date (days_from_civil 2023 4 29) 0 0 0 0 Shanghai) = Inr False
   \<and> ICSCalendarProvider_IsWorkTime synced_ics
      (Date (days_from_civil 2023 5 4) 0 0 0 0 Shanghai) = Inr True
   \<and> GoogleCalendarProvider_IsWorkTime synced_gcal
      (Date (days_from_civil 2023 4 29) 0 0 0 0 UTC) = Inr False
   \<and> GoogleCalendarProvider_IsWorkTime synced_gcal
      (Date (days_from_civil 2023 5 4) 9 59 59 999999999 UTC) = Inr False
   \<and> GoogleCalendarProvider_IsWorkTime synced_gcal
      (Date (days_from_civil 2023 5 4) 10 0 0 0 UTC) = Inr True
   \<and> GoogleCalendarProvider_IsWorkTime synced_gcal
      (Date (days_from_civil 2023 5 5) 0 0 0 0 UTC) = Inr True"
proof (intro conjI)
  show "ICSCalendarProvider_IsWorkTime synced_ics
      (Date (days_from_civil 2023 4 29) 0 0 0 0 Shanghai) = Inr False"
    by (simp add: ICSCalendarProvider_IsWorkTime_def synced_ics_def sample_ics_def
        labour_index_def labour_times eval_cal)
  show "ICSCalendarProvider_IsWorkTime synced_ics
      (Date (days_from_civil 2023 5 4) 0 0 0 0 Shanghai) = Inr True"
    by (rule calendar_lookup_half_open [THEN conjunct1, rule_format])
      (simp add: synced_ics_def sample_ics_def labour_index_def eval_cal)
  have k1: "cacheEvents (cache synced_gcal)
      (dateKey (Date (days_from_civil 2023 4 29) 0 0 0 0 UTC)) = Some [leave]"
    by (simp add: synced_gcal_def leave_index_def eval_cal)
  have k2: "cacheEvents (cache synced_gcal)
      (dateKey (Date (days_from_civil 2023 5 4) 9 59 59 999999999 UTC)) = Some [leave]"
    by (simp add: synced_gcal_def leave_index_def eval_cal)
  have k3: "cacheEvents (cache synced_gcal)
      (dateKey (Date (days_from_civil 2023 5 4) 10 0 0 0 UTC)) = Some [leave]"
    by (simp add: synced_gcal_def leave_index_def eval_cal)
  note g = calendar_lookup_half_open [THEN conjunct2, THEN conjunct2, THEN conjunct1, rule_format]
  show "GoogleCalendarProvider_IsWorkTime synced_gcal
      (Date (days_from_civil 2023 4 29) 0 0 0 0 UTC) = Inr False"
    using g [OF k1] by (simp add: inRange_def leave_times eval_cal)
  show "GoogleCalendarProvider_IsWorkTime synced_gcal
      (Date (days_from_civil 2023 5 4) 9 59 59 999999999 UTC) = Inr False"
    using g [OF k2] by (simp add: inRange_def leave_times eval_cal)
  show "GoogleCalendarProvider_IsWorkTime synced_gcal
      (Date (days_from_civil 2023 5 4) 10 0 0 0 UTC) = Inr True"
    using g [OF k3] by (simp add: inRange_def leave_times eval_cal)
  show "GoogleCalendarProvider_IsWorkTime synced_gcal
      (Date (days_from_civil 2023 5 5) 0 0 0 0 UTC) = Inr True"
    by (rule calendar_lookup_half_open [THEN conjunct2, THEN conjunct1, rule_format])
      (simp add: synced_gcal_def leave_index_def eval_cal)
qed

subsection \<open>Pattern precedence of the ICS lookup\<close>

text \<open>
  C4. Let the events before \<open>e\<close> in the day's list decide nothing and let the time lie
  in the range of \<open>e\<close>. If the summary of \<open>e\<close> matches a holiday pattern, the answer is
  false, whether or not it also matches a work-day pattern; if it matches a work-day
  pattern and no holiday pattern, the answer is true. An event in range that matches
  neither set is skipped: the answer is the one without it. If no event decides, the
  answer is true.
\<close>

theorem ICS_holiday_before_work:
  "(events p (dateKey t) = Some (pre @ e # post)
      \<and> (\<forall>x \<in> set pre. \<not> decides (holidayPatterns p) (workPatterns p) t x)
      \<and> inRange t e \<and> matchAny (holidayPatterns p) (Summary e)
      \<longrightarrow> ICSCalendarProvider_IsWorkTime p t = Inr False)
   \<and> (events p (dateKey t) = Some (pre @ e # post)
      \<and> (\<forall>x \<in> set pre. \<not> decides (holidayPatterns p) (workPatterns p) t x)
      \<and> inRange t e \<and> \<not> matchAny (holidayPatterns p) (Summary e)
      \<and> matchAny (workPatterns p) (Summary e)
      \<longrightarrow> ICSCalendarProvider_IsWorkTime p t = Inr True)
   \<and> (events p (dateKey t) = Some (pre @ e # post)
      \<and> inRange t e \<and> \<not> matchAny (holidayPatterns p) (Summary e)
      \<and> \<not> matchAny (workPatterns p) (Summary e)
      \<longrightarrow> ICSCalendarProvider_IsWorkTime p t =
            ICSCalendarProvider_IsWorkTime (p\<lparr>events := (events p)(dateKey t \<mapsto> pre @ post)\<rparr>) t)
   \<and> (events p (dateKey t) = Some evs
      \<and> (\<forall>x \<in> set evs. \<not> decides (holidayPatterns p) (workPatterns p) t x)
      \<longrightarrow> ICSCalendarProvider_IsWorkTime p t = Inr True)"
proof (intro conjI impI)
  assume a: "events p (dateKey t) = Some (pre @ e # post)
      \<and> (\<forall>x \<in> set pre. \<not> decides (holidayPatterns p) (workPatterns p) t x)
      \<and> inRange t e \<and> matchAny (holidayPatterns p) (Summary e)"
  then have "ICS_scan (holidayPatterns p) (workPatterns p) t (pre @ e # post) =
      ICS_scan (holidayPatterns p) (workPatterns p) t (e # post)"
    by (intro ICS_scan_skip) simp
  with a show "ICSCalendarProvider_IsWorkTime p t = Inr False"
    by (simp add: ICSCalendarProvider_IsWorkTime_def inRange_Before)
next
  assume a: "events p (dateKey t) = Some (pre @ e # post)
      \<and> (\<forall>x \<in> set pre. \<not> decides (holidayPatterns p) (workPatterns p) t x)
      \<and> inRange t e \<and> \<not> matchAny (holidayPatterns p) (Summary e)
      \<and> matchAny (workPatterns p) (Summary e)"
  then have "ICS_scan (holidayPatterns p) (workPatterns p) t (pre @ e # post) =
      ICS_scan (holidayPatterns p) (workPatterns p) t (e # post)"
    by (intro ICS_scan_skip) simp
  with a show "ICSCalendarProvider_IsWorkTime p t = Inr True"
    by (simp add: ICSCalendarProvider_IsWorkTime_def inRange_Before)
next
  assume a: "events p (dateKey t) = Some (pre @ e # post)
      \<and> inRange t e \<and> \<not> matchAny (holidayPatterns p) (Summary e)
      \<and> \<not> matchAny (workPatterns p) (Summary e)"
  then have "\<not> decides (holidayPatterns p) (workPatterns p) t e"
    by (simp add: decides_def)
  from ICS_scan_drop [OF this] a
  show "ICSCalendarProvider_IsWorkTime p t =
            ICSCalendarProvider_IsWorkTime (p\<lparr>events := (events p)(dateKey t \<mapsto> pre @ post)\<rparr>) t"
    by (simp add: ICSCalendarProvider_IsWorkTime_def)
next
  assume a: "events p (dateKey t) = Some evs
      \<and> (\<forall>x \<in> set evs. \<not> decides (holidayPatterns p) (workPatterns p) t x)"
  then have "ICS_scan (holidayPatterns p) (workPatterns p) t (evs @ []) =
      ICS_scan (holidayPatterns p) (workPatterns p) t []"
    by (intro ICS_scan_skip) simp
  with a show "ICSCalendarProvider_IsWorkTime p t = Inr True"
    by (simp add: ICSCalendarProvider_IsWorkTime_def)
qed

lemma noon_key: "dateKey noon = 19476" and noon_nano: "unixNano noon = 1682740800000000000"
  by (simp_all add: noon_def eval_cal)

lemma sample_range: "inRange noon offsite" "inRange noon golden" "inRange noon makeup"
  by (simp_all add: inRange_def offsite_def golden_def makeup_def labour_times noon_nano)

lemma sample_matches:
  "\<not> matchAny (holidayPatterns sample_ics) ''Team offsite''"
  "\<not> matchAny (workPatterns sample_ics) ''Team offsite''"
  "matchAny (holidayPatterns sample_ics) ''Golden Week (off) (work)''"
  "matchAny (workPatterns sample_ics) ''Golden Week (off) (work)''"
  "\<not> matchAny (holidayPatterns sample_ics) ''Make-up day (work)''"
  "matchAny (workPatterns sample_ics) ''Make-up day (work)''"
  by (simp_all add: sample_ics_def)

text \<open>
  At noon of 2023-04-29 with three events in range: an offsite that matches nothing is
  skipped, and the next event decides; one that matches both sets makes it a holiday.
\<close>

theorem ICS_holiday_before_work_witness:
  "ICSCalendarProvider_IsWorkTime (sample_ics\<lparr>events := [19476 \<mapsto> [offsite] @ golden # [makeup]]\<rparr>)
      noon = Inr False
   \<and> ICSCalendarProvider_IsWorkTime (sample_ics\<lparr>events := [19476 \<mapsto> [offsite] @ makeup # [golden]]\<rparr>)
      noon = Inr True
   \<and> ICSCalendarProvider_IsWorkTime (sample_ics\<lparr>events := [19476 \<mapsto> [offsite]]\<rparr>) noon = Inr True"
proof (intro conjI)
  have u: "\<not> decides (holidayPatterns sample_ics) (workPatterns sample_ics) noon offsite"
    using sample_matches by (simp add: decides_def offsite_def)
  show "ICSCalendarProvider_IsWorkTime
      (sample_ics\<lparr>events := [19476 \<mapsto> [offsite] @ golden # [makeup]]\<rparr>) noon = Inr False"
    using u sample_range sample_matches
    by (intro ICS_holiday_before_work [THEN conjunct1, rule_format, where pre = "[offsite]" and e = golden
          and post = "[makeup]"])
      (simp add: noon_key golden_def)
  show "ICSCalendarProvider_IsWorkTime
      (sample_ics\<lparr>events := [19476 \<mapsto> [offsite] @ makeup # [golden]]\<rparr>) noon = Inr True"
    using u sample_range sample_matches
    by (intro ICS_holiday_before_work [THEN conjunct2, THEN conjunct1, rule_format, where pre = "[offsite]"
          and e = makeup and post = "[golden]"])
      (simp add: noon_key makeup_def)
  show "ICSCalendarProvider_IsWorkTime (sample_ics\<lparr>events := [19476 \<mapsto> [offsite]]\<rparr>) noon
      = Inr True"
    using u
    by (intro ICS_holiday_before_work [THEN conjunct2, THEN conjunct2, THEN conjunct2, rule_format,
          where evs = "[offsite]"])
      (simp add: noon_key)
qed

subsection \<open>Refresh\<close>

text \<open>
  C5, as amended. A refresh of the ICS provider that fails to fetch, read or parse the
  feed returns an error and leaves the provider, its event index included, as it was. A
  refresh that succeeds replaces the whole index: the new index of the ICS provider is
  built from the feed alone, that of the Google provider from the listed items alone. The
  indexing returns whenever the events start in zones without transitions.
\<close>

theorem syncEvents_keeps_or_replaces:
  "(resp = GetFailed msg \<or> resp = ReadFailed msg \<or> resp = ParseFailed msg \<longrightarrow>
      (\<exists>err. ICSCalendarProvider_syncEvents resp p = Some (Inl err, p)))
   \<and> (ICS_index calendar Map.empty = Some m \<longrightarrow>
        ICSCalendarProvider_syncEvents (Parsed calendar) p = Some (Inr (), p\<lparr>events := m\<rparr>))
   \<and> ((\<forall>ev \<in> set calendar. \<forall>s. startAt ev = Some s \<longrightarrow> tx (loc s) = []) \<longrightarrow>
        (\<exists>m. ICS_index calendar Map.empty = Some m))
   \<and> (offTimeEvents g \<noteq> [] \<and> Google_index pr pd items Map.empty = Some gm \<longrightarrow>
        GoogleCalendarProvider_syncEvents pr pd now (Listed items) g =
          Some (Inr (), g\<lparr>cache := (cache g)\<lparr>cacheEvents := gm, lastSync := now\<rparr>\<rparr>))
   \<and> ((\<forall>ev \<in> set items. \<forall>s. eventTime pr pd (gStart ev) = Some s \<longrightarrow> tx (loc s) = []) \<longrightarrow>
        (\<exists>gm. Google_index pr pd items Map.empty = Some gm))"
proof (intro conjI impI)
  assume "resp = GetFailed msg \<or> resp = ReadFailed msg \<or> resp = ParseFailed msg"
  then show "\<exists>err. ICSCalendarProvider_syncEvents resp p = Some (Inl err, p)"
    by (auto simp: ICSCalendarProvider_syncEvents_def)
next
  assume "ICS_index calendar Map.empty = Some m"
  then show "ICSCalendarProvider_syncEvents (Parsed calendar) p = Some (Inr (), p\<lparr>events := m\<rparr>)"
    by (simp add: ICSCalendarProvider_syncEvents_def)
next
  assume "\<forall>ev \<in> set calendar. \<forall>s. startAt ev = Some s \<longrightarrow> tx (loc s) = []"
  then show "\<exists>m. ICS_index calendar Map.empty = Some m"
    by (rule ICS_index_fixed)
next
  assume "offTimeEvents g \<noteq> [] \<and> Google_index pr pd items Map.empty = Some gm"
  then show "GoogleCalendarProvider_syncEvents pr pd now (Listed items) g =
          Some (Inr (), g\<lparr>cache := (cache g)\<lparr>cacheEvents := gm, lastSync := now\<rparr>\<rparr>)"
    by (simp add: GoogleCalendarProvider_syncEvents_def Let_def)
next
  assume "\<forall>ev \<in> set items. \<forall>s. eventTime pr pd (gStart ev) = Some s \<longrightarrow> tx (loc s) = []"
  then show "\<exists>gm. Google_index pr pd items Map.empty = Some gm"
    by (rule Google_index_fixed)
qed

text \<open>
  A failed fetch keeps the synced ICS index; a successful refresh of either provider drops
  the stale entry under day 1 and files the new events.
\<close>

theorem syncEvents_keeps_or_replaces_witness:
  "ICSCalendarProvider_syncEvents (GetFailed ''timeout'') synced_ics
      = Some (Inl (FetchError ''timeout''), synced_ics)
   \<and> ICSCalendarProvider_syncEvents (Parsed sample_feed) (sample_ics\<lparr>events := [1 \<mapsto> [makeup]]\<rparr>)
      = Some (Inr (), synced_ics)
   \<and> GoogleCalendarProvider_syncEvents sample_parseRFC3339 sample_parseDay
        (Date (days_from_civil 2023 4 28) 8 0 0 0 UTC) (Listed sample_items)
        (sample_gcal\<lparr>cache := (cache sample_gcal)\<lparr>cacheEvents := [1 \<mapsto> [leave]]\<rparr>\<rparr>)
      = Some (Inr (), synced_gcal)"
proof (intro conjI)
  note c5 = syncEvents_keeps_or_replaces [where resp = "GetFailed ''timeout''" and msg = "''timeout''" and p = synced_ics]
  from c5 obtain err where
    "ICSCalendarProvider_syncEvents (GetFailed ''timeout'') synced_ics = Some (Inl err, synced_ics)"
    by blast
  then show "ICSCalendarProvider_syncEvents (GetFailed ''timeout'') synced_ics
      = Some (Inl (FetchError ''timeout''), synced_ics)"
    by (simp add: ICSCalendarProvider_syncEvents_def)
next
  show "ICSCalendarProvider_syncEvents (Parsed sample_feed) (sample_ics\<lparr>events := [1 \<mapsto> [makeup]]\<rparr>)
      = Some (Inr (), synced_ics)"
    using syncEvents_keeps_or_replaces [where calendar = sample_feed and m = labour_index
        and p = "sample_ics\<lparr>events := [1 \<mapsto> [makeup]]\<rparr>"] ICS_index_sample
    by (simp add: synced_ics_def)
next
  show "GoogleCalendarProvider_syncEvents sample_parseRFC3339 sample_parseDay
        (Date (days_from_civil 2023 4 28) 8 0 0 0 UTC) (Listed sample_items)
        (sample_gcal\<lparr>cache := (cache sample_gcal)\<lparr>cacheEvents := [1 \<mapsto> [leave]]\<rparr>\<rparr>)
      = Some (Inr (), synced_gcal)"
    using syncEvents_keeps_or_replaces [where items = sample_items and gm = leave_index and pr = sample_parseRFC3339
        and pd = sample_parseDay and now = "Date (days_from_civil 2023 4 28) 8 0 0 0 UTC"
        and g = "sample_gcal\<lparr>cache := (cache sample_gcal)\<lparr>cacheEvents := [1 \<mapsto> [leave]]\<rparr>\<rparr>"]
      Google_index_sample
    by (simp add: synced_gcal_def sample_gcal_def)
qed

text \<open>
  C5, as stated, fails for both providers. The Google provider empties its index before
  it lists the events, so a failed listing leaves it empty, and the holiday it knew is
  work time afterwards. The ICS provider returns from a failed fetch before it touches
  its index, which it keeps.
\<close>

theorem syncEvents_failed_refresh_counterexample:
  "cacheEvents (cache synced_gcal) 19476 = Some [leave]
   \<and> GoogleCalendarProvider_syncEvents sample_parseRFC3339 sample_parseDay
          (Date (days_from_civil 2023 4 29) 8 0 0 0 UTC) (ListFailed ''unavailable'') synced_gcal
        = Some (Inl (ListEventsError ''unavailable''),
                synced_gcal\<lparr>cache := (cache synced_gcal)\<lparr>cacheEvents := Map.empty\<rparr>\<rparr>)
   \<and> GoogleCalendarProvider_IsWorkTime synced_gcal
        (Date (days_from_civil 2023 4 29) 9 0 0 0 UTC) = Inr False
   \<and> GoogleCalendarProvider_IsWorkTime
        (synced_gcal\<lparr>cache := (cache synced_gcal)\<lparr>cacheEvents := Map.empty\<rparr>\<rparr>)
        (Date (days_from_civil 2023 4 29) 9 0 0 0 UTC) = Inr True
   \<and> events synced_ics 19476 = Some [labour]
   \<and> ICSCalendarProvider_syncEvents (GetFailed ''timeout'') synced_ics
        = Some (Inl (FetchError ''timeout''), synced_ics)"
  by (simp add: GoogleCalendarProvider_syncEvents_def ICSCalendarProvider_syncEvents_def
      GoogleCalendarProvider_IsWorkTime_def synced_gcal_def synced_ics_def sample_gcal_def
      sample_ics_def leave_index_def labour_index_def leave_times eval_cal)

section \<open>Properties of the cloud scaling providers\<close>

lemmas eval_cloud = calm_def busy_def issued_def worker_def gke_sample_def gke_scaled_def
  gke_restored_def gke_toggled_def eks_sample_def eks_scaled_def autoscalingAgrees_def
  GKEProvider_ScaleNodePool_def GKEProvider_RestoreNodePool_def getNodesInNodePool_def
  saveNodePoolConfig_def CreateConfigMap_gke_def disableAutoscaling_def updateNodePool_def
  restoreSize_def isAutoscalingMatch_def isNodeCountMatch_def autoscalingEnabled_def
  isClusterBusy_def isNodeCordoned_def setPoolSize_def setPoolAutoscaling_def
  ConfigMapNamePrefix_def
  AWSProvider_ScaleNodePool_def AWSProvider_RestoreNodePool_def getNodesInNodeGroup_def
  getNodeRegion_def getEKSClient_def regionClient_def DescribeNodegroup_def applyScaling_def
  UpdateNodegroupConfig_call_def CreateConfigMap_aws_def saveNodeGroupConfig_def
  disablesAutoscaling_def Let_def

text \<open>
  C6. A GKE scale-down of a pool that has as many nodes as the requested count returns
  no error and leaves the world, request log included, as it was. The EKS scale-down has
  no such test: for a node group of one node, asked for one node, with every call
  accepted, it writes the saved-state record and sends two configuration updates, the
  first of which lowers the maximum size of the group from 3 to 1.
\<close>

theorem ScaleNodePool_at_desired_size:
  "(env AtListNodePools = None \<and> getNodesInNodePool env nodePoolName w = Inr ns
      \<and> int (length ns) = count
    \<longrightarrow> GKEProvider_ScaleNodePool env nodePoolName count w = (None, w))
   \<and> getNodesInNodeGroup calm BeforeSave ''batch'' eks_sample = Inr [worker ''n1'' ''batch'' False]
   \<and> fst (AWSProvider_ScaleNodePool calm ''batch'' 1 eks_sample) = None
   \<and> awsRequests (snd (AWSProvider_ScaleNodePool calm ''batch'' 1 eks_sample))
       = [AwsCreateConfigMap ''bmw-saver-nodepool-batch''
            \<lparr>SavedDesiredSize = 1,
             SavedScalingConfig = Some \<lparr>MinSize = Some 1, MaxSize = Some 3, DesiredSize = None\<rparr>\<rparr>,
          UpdateNodegroupConfig ''batch''
            \<lparr>MinSize = Some 1, MaxSize = Some 1, DesiredSize = Some 1\<rparr>,
          UpdateNodegroupConfig ''batch''
            \<lparr>MinSize = None, MaxSize = None, DesiredSize = Some 1\<rparr>]
   \<and> nodegroups eks_sample ''batch''
       = Some \<lparr>ScalingConfig = Some \<lparr>MinSize = Some 1, MaxSize = Some 3, DesiredSize = Some 1\<rparr>\<rparr>
   \<and> nodegroups (snd (AWSProvider_ScaleNodePool calm ''batch'' 1 eks_sample)) ''batch''
       = Some \<lparr>ScalingConfig = Some \<lparr>MinSize = Some 1, MaxSize = Some 1, DesiredSize = Some 1\<rparr>\<rparr>
   \<and> awsConfigMaps eks_sample ''bmw-saver-nodepool-batch'' = None
   \<and> awsConfigMaps (snd (AWSProvider_ScaleNodePool calm ''batch'' 1 eks_sample))
         ''bmw-saver-nodepool-batch''
       = Some (Encoded \<lparr>SavedDesiredSize = 1,
                        SavedScalingConfig = Some \<lparr>MinSize = Some 1, MaxSize = Some 3,
                                                   DesiredSize = None\<rparr>\<rparr>)"
proof -
  have gke: "env AtListNodePools = None \<and> getNodesInNodePool env nodePoolName w = Inr ns
      \<and> int (length ns) = count
    \<longrightarrow> GKEProvider_ScaleNodePool env nodePoolName count w = (None, w)"
    by (simp add: GKEProvider_ScaleNodePool_def split: option.splits)
  show ?thesis
    apply (rule conjI)
     apply (rule gke)
    apply (simp add: eval_cloud)
    done
qed

theorem ScaleNodePool_at_desired_size_witness:
  "calm AtListNodePools = None
   \<and> getNodesInNodePool calm ''batch'' gke_sample = Inr (nodes gke_sample)
   \<and> int (length (nodes gke_sample)) = 2
   \<and> GKEProvider_ScaleNodePool calm ''batch'' 2 gke_sample = (None, gke_sample)"
  using ScaleNodePool_at_desired_size
    [where env = calm and nodePoolName = "''batch''" and w = gke_sample
       and ns = "nodes gke_sample" and count = 2]
  by (simp add: calm_def gke_sample_def worker_def getNodesInNodePool_def)

lemma find_setPoolSize:
  "find (\<lambda>pool. Name pool = name) (setPoolSize name n pools)
   = map_option (\<lambda>pool. pool\<lparr>InitialNodeCount := n\<rparr>) (find (\<lambda>pool. Name pool = name) pools)"
  by (induction pools) (simp_all add: setPoolSize_def)

lemma find_setPoolAutoscaling:
  "find (\<lambda>pool. Name pool = name) (setPoolAutoscaling name a pools)
   = map_option (\<lambda>pool. pool\<lparr>Autoscaling := Some a\<rparr>) (find (\<lambda>pool. Name pool = name) pools)"
  by (induction pools) (simp_all add: setPoolAutoscaling_def)

lemma restore_noop:
  assumes "configMaps w (ConfigMapNamePrefix @ name) = Some (Encoded c)"
      and "find (\<lambda>pool. Name pool = name) (nodePools w) = Some p"
      and "isAutoscalingMatch p c" "isNodeCountMatch p c"
  shows "snd (GKEProvider_RestoreNodePool env2 name w) = w
         \<and> (env2 AtRestoreNewClient = None \<and> env2 AtGetConfigMap = None
              \<and> env2 AtRestoreListNodePools = None
              \<longrightarrow> fst (GKEProvider_RestoreNodePool env2 name w) = None)"
  using assms by (simp add: GKEProvider_RestoreNodePool_def)

text \<open>What a restore that returned no error, its request accepted, has done.\<close>

lemma restore_ok_cases:
  assumes run: "GKEProvider_RestoreNodePool env name w = (None, w')"
      and a: "env AtRestoreAutoscaling = None" and z: "env AtRestoreSize = None"
  shows "\<exists>c p. configMaps w (ConfigMapNamePrefix @ name) = Some (Encoded c)
           \<and> find (\<lambda>pool. Name pool = name) (nodePools w) = Some p
           \<and> ((isAutoscalingMatch p c \<and> isNodeCountMatch p c \<and> w' = w)
              \<or> (\<exists>saved. SavedAutoscaling c = Some saved \<and> Enabled saved
                    \<and> w' = w\<lparr>requests := requests w @ [SetAutoscaling name saved],
                              nodePools := setPoolAutoscaling name saved (nodePools w)\<rparr>)
              \<or> (\<not> autoscalingEnabled (SavedAutoscaling c)
                    \<and> w' = w\<lparr>requests := requests w @ [SetSize name (NodeCount c)],
                              nodePools := setPoolSize name (NodeCount c) (nodePools w)\<rparr>))"
  using assms
  by (auto simp add: GKEProvider_RestoreNodePool_def restoreSize_def Let_def
        autoscalingEnabled_def isNodeCountMatch_def
      split: if_splits option.splits payload.splits)

text \<open>
  C7, for the GKE provider. When a restore returns no error, the cloud API having
  accepted its request, and the saved state has autoscaling enabled or the live autoscaling
  block agrees with the saved one, then that restore has issued at most one request, and a
  second restore, in any environment, leaves the world and the request log as they are; it
  returns no error when its own reads succeed.
\<close>

theorem GKE_restore_twice_one_request:
  assumes a: "env AtRestoreAutoscaling = None" and z: "env AtRestoreSize = None"
      and ag: "autoscalingAgrees name w"
      and run: "GKEProvider_RestoreNodePool env name w = (None, w')"
  shows "length (issued (requests w) (requests w')) \<le> 1
         \<and> snd (GKEProvider_RestoreNodePool env2 name w') = w'
         \<and> (env2 AtRestoreNewClient = None \<and> env2 AtGetConfigMap = None
              \<and> env2 AtRestoreListNodePools = None
              \<longrightarrow> fst (GKEProvider_RestoreNodePool env2 name w') = None)"
proof -
  from restore_ok_cases [OF run a z] obtain c p where
    cm: "configMaps w (ConfigMapNamePrefix @ name) = Some (Encoded c)"
    and fp: "find (\<lambda>pool. Name pool = name) (nodePools w) = Some p"
    and cs: "(isAutoscalingMatch p c \<and> isNodeCountMatch p c \<and> w' = w)
              \<or> (\<exists>saved. SavedAutoscaling c = Some saved \<and> Enabled saved
                    \<and> w' = w\<lparr>requests := requests w @ [SetAutoscaling name saved],
                              nodePools := setPoolAutoscaling name saved (nodePools w)\<rparr>)
              \<or> (\<not> autoscalingEnabled (SavedAutoscaling c)
                    \<and> w' = w\<lparr>requests := requests w @ [SetSize name (NodeCount c)],
                              nodePools := setPoolSize name (NodeCount c) (nodePools w)\<rparr>)"
    by blast
  from ag cm fp have agc: "autoscalingEnabled (SavedAutoscaling c) \<or> isAutoscalingMatch p c"
    by (simp add: autoscalingAgrees_def)
  from cs consider
      (same) "isAutoscalingMatch p c" "isNodeCountMatch p c" "w' = w"
    | (auto) saved where "SavedAutoscaling c = Some saved" "Enabled saved"
        "w' = w\<lparr>requests := requests w @ [SetAutoscaling name saved],
                nodePools := setPoolAutoscaling name saved (nodePools w)\<rparr>"
    | (size) "\<not> autoscalingEnabled (SavedAutoscaling c)"
        "w' = w\<lparr>requests := requests w @ [SetSize name (NodeCount c)],
                nodePools := setPoolSize name (NodeCount c) (nodePools w)\<rparr>"
    by blast
  then show ?thesis
  proof cases
    case same
    from restore_noop [OF cm fp same(1,2), of env2] same(3) show ?thesis
      by (simp add: issued_def)
  next
    case auto
    let ?p = "p\<lparr>Autoscaling := Some saved\<rparr>"
    have cm': "configMaps w' (ConfigMapNamePrefix @ name) = Some (Encoded c)"
      using cm auto(3) by simp
    have fp': "find (\<lambda>pool. Name pool = name) (nodePools w') = Some ?p"
      using fp auto(3) by (simp add: find_setPoolAutoscaling)
    have m1: "isAutoscalingMatch ?p c" using auto(1) by (simp add: isAutoscalingMatch_def)
    have m2: "isNodeCountMatch ?p c"
      using auto(1,2) by (simp add: isNodeCountMatch_def autoscalingEnabled_def)
    have "length (issued (requests w) (requests w')) \<le> 1" using auto(3) by (simp add: issued_def)
    with restore_noop [OF cm' fp' m1 m2, of env2] show ?thesis by simp
  next
    case size
    let ?p = "p\<lparr>InitialNodeCount := NodeCount c\<rparr>"
    have cm': "configMaps w' (ConfigMapNamePrefix @ name) = Some (Encoded c)"
      using cm size(2) by simp
    have fp': "find (\<lambda>pool. Name pool = name) (nodePools w') = Some ?p"
      using fp size(2) by (simp add: find_setPoolSize)
    from agc size(1) have "isAutoscalingMatch p c" by simp
    then have m1: "isAutoscalingMatch ?p c" by (simp add: isAutoscalingMatch_def)
    have m2: "isNodeCountMatch ?p c" by (simp add: isNodeCountMatch_def)
    have "length (issued (requests w) (requests w')) \<le> 1" using size(2) by (simp add: issued_def)
    with restore_noop [OF cm' fp' m1 m2, of env2] show ?thesis by simp
  qed
qed

theorem GKE_restore_twice_one_request_witness:
  "calm AtRestoreAutoscaling = None \<and> calm AtRestoreSize = None
   \<and> autoscalingAgrees ''batch'' gke_scaled
   \<and> GKEProvider_RestoreNodePool calm ''batch'' gke_scaled = (None, gke_restored)
   \<and> issued (requests gke_scaled) (requests gke_restored) = [SetSize ''batch'' 2]
   \<and> snd (GKEProvider_RestoreNodePool calm ''batch'' gke_restored) = gke_restored
   \<and> fst (GKEProvider_RestoreNodePool calm ''batch'' gke_restored) = None"
  using GKE_restore_twice_one_request
    [where env = calm and name = "''batch''" and w = gke_scaled and w' = gke_restored
       and ?env2.0 = calm]
  by (simp add: eval_cloud)

text \<open>
  Two restores in a row that send two requests. On GKE: the saved state has no autoscaling
  block and the live pool has one that is disabled, so the comparison fails again after
  the first size request was accepted; or the first request is answered busy. On EKS every
  restore sends its update.
\<close>

theorem restore_twice_counterexample:
  "requests (snd (GKEProvider_RestoreNodePool calm ''batch''
              (snd (GKEProvider_RestoreNodePool calm ''batch'' gke_toggled))))
     = [SetSize ''batch'' 2, SetSize ''batch'' 2]
   \<and> fst (GKEProvider_RestoreNodePool (calm(AtRestoreSize \<mapsto> busy)) ''batch'' gke_scaled) = None
   \<and> requests (snd (GKEProvider_RestoreNodePool calm ''batch''
              (snd (GKEProvider_RestoreNodePool (calm(AtRestoreSize \<mapsto> busy)) ''batch''
                      gke_scaled))))
     = [SetSize ''batch'' 2, SetSize ''batch'' 2]
   \<and> fst (AWSProvider_RestoreNodePool calm ''batch'' eks_scaled) = None
   \<and> awsRequests (snd (AWSProvider_RestoreNodePool calm ''batch''
              (snd (AWSProvider_RestoreNodePool calm ''batch'' eks_scaled))))
     = [UpdateNodegroupConfig ''batch''
          \<lparr>MinSize = Some 1, MaxSize = Some 3, DesiredSize = Some 2\<rparr>,
        UpdateNodegroupConfig ''batch''
          \<lparr>MinSize = Some 1, MaxSize = Some 3, DesiredSize = Some 2\<rparr>]"
  by (simp add: eval_cloud)

lemma drainCordoned_frame:
  "drainCordoned env ns w = (r, w') \<Longrightarrow>
   nodePools w' = nodePools w \<and> configMaps w' = configMaps w \<and> nodes w' = nodes w
   \<and> (\<exists>names. requests w' = requests w @ map DrainNode names)"
proof (induction ns arbitrary: w)
  case Nil
  then show ?case by simp
next
  case (Cons node rest)
  show ?case
  proof (cases "isNodeCordoned node")
    case False
    with Cons show ?thesis by simp
  next
    case True
    let ?w1 = "w\<lparr>requests := requests w @ [DrainNode (nodeName node)]\<rparr>"
    show ?thesis
    proof (cases "env (AtDrainNode (nodeName node)) = None")
      case False
      with True Cons.prems have w': "w' = ?w1" by (auto simp add: Let_def)
      have "requests ?w1 = requests w @ map DrainNode [nodeName node]" by simp
      then have "\<exists>names. requests ?w1 = requests w @ map DrainNode names" by blast
      with w' show ?thesis by simp
    next
      case none: True
      with True Cons.prems have "drainCordoned env rest ?w1 = (r, w')" by (simp add: Let_def)
      from Cons.IH [OF this] obtain names where
        f: "nodePools w' = nodePools w" "configMaps w' = configMaps w" "nodes w' = nodes w"
        and q: "requests w' = (requests w @ [DrainNode (nodeName node)]) @ map DrainNode names"
        by auto
      from q have "requests w' = requests w @ map DrainNode (nodeName node # names)" by simp
      with f show ?thesis by blast
    qed
  qed
qed

lemma save_frame:
  assumes "saveNodePoolConfig env name w = (r, w')"
  shows "nodePools w' = nodePools w \<and> nodes w' = nodes w
         \<and> (\<forall>k v. configMaps w k = Some v \<longrightarrow> configMaps w' k = Some v)
         \<and> (\<forall>k. k \<noteq> ConfigMapNamePrefix @ name \<longrightarrow> configMaps w' k = configMaps w k)
         \<and> (\<exists>extra. requests w' = requests w @ extra \<and> SetSize name count \<notin> set extra)"
  using assms
  by (auto simp add: saveNodePoolConfig_def CreateConfigMap_gke_def Let_def
      split: if_splits option.splits prod.splits)

lemma disable_busy:
  assumes "isClusterBusy (env AtDisableAutoscaling)"
      and "(if b then disableAutoscaling env name w else (None, w)) = (r, w')"
  shows "r = None \<and> nodePools w' = nodePools w \<and> nodes w' = nodes w \<and> configMaps w' = configMaps w
         \<and> (\<exists>extra. requests w' = requests w @ extra \<and> SetSize name count \<notin> set extra)"
  using assms
  by (auto simp add: disableAutoscaling_def Let_def isClusterBusy_def
      split: if_splits option.splits)

lemma update_busy:
  assumes "isClusterBusy (env AtUpdateNodePool)"
      and "updateNodePool env name count w = (r, w')"
  shows "r = None \<and> nodePools w' = nodePools w \<and> nodes w' = nodes w \<and> configMaps w' = configMaps w"
  using assms
  by (auto simp add: updateNodePool_def Let_def isClusterBusy_def
      split: if_splits option.splits)

lemma restore_busy:
  assumes "isClusterBusy (env AtRestoreAutoscaling)" "isClusterBusy (env AtRestoreSize)"
      and "GKEProvider_RestoreNodePool env name w = (r, w')"
  shows "nodePools w' = nodePools w \<and> configMaps w' = configMaps w
         \<and> (issued (requests w) (requests w') \<noteq> [] \<longrightarrow> r = None)"
  using assms
  by (auto simp add: GKEProvider_RestoreNodePool_def restoreSize_def issued_def Let_def
        isClusterBusy_def
      split: if_splits option.splits payload.splits api_error.splits)

lemma scale_busy:
  assumes bu: "isClusterBusy (env AtUpdateNodePool)"
      and bd: "isClusterBusy (env AtDisableAutoscaling)"
      and run: "GKEProvider_ScaleNodePool env name count w = (r, w')"
  shows "nodePools w' = nodePools w
         \<and> (\<forall>k v. configMaps w k = Some v \<longrightarrow> configMaps w' k = Some v)
         \<and> (\<forall>k. k \<noteq> ConfigMapNamePrefix @ name \<longrightarrow> configMaps w' k = configMaps w k)
         \<and> (SetSize name count \<in> set (issued (requests w) (requests w')) \<longrightarrow> r = None)"
proof (cases "env AtListNodePools = None")
  case False
  with run show ?thesis by (auto simp add: GKEProvider_ScaleNodePool_def issued_def)
next
  case lst: True
  show ?thesis
  proof (cases "find (\<lambda>nodePool. Name nodePool = name) (nodePools w)")
    case None
    with run lst show ?thesis by (auto simp add: GKEProvider_ScaleNodePool_def issued_def)
  next
    case (Some nodePool)
    show ?thesis
    proof (cases "getNodesInNodePool env name w")
      case (Inl e)
      with run lst Some show ?thesis by (auto simp add: GKEProvider_ScaleNodePool_def issued_def)
    next
      case (Inr ns)
      show ?thesis
      proof (cases "int (length ns) = count")
        case True
        with run lst Some Inr show ?thesis
          by (auto simp add: GKEProvider_ScaleNodePool_def issued_def)
      next
        case ne: False
        obtain r1 w1 where d: "drainCordoned env ns w = (r1, w1)" by (cases "drainCordoned env ns w")
        from drainCordoned_frame [OF d] obtain names where
          f1: "nodePools w1 = nodePools w" "configMaps w1 = configMaps w" "nodes w1 = nodes w"
          and q1: "requests w1 = requests w @ map DrainNode names" by blast
        show ?thesis
        proof (cases r1)
          case (Some e)
          with run lst \<open>find _ _ = Some nodePool\<close> Inr ne d have "w' = w1"
            by (simp add: GKEProvider_ScaleNodePool_def)
          with f1 q1 show ?thesis by (auto simp add: issued_def)
        next
          case r1: None
          obtain r2 w2 where sv: "saveNodePoolConfig env name w1 = (r2, w2)"
            by (cases "saveNodePoolConfig env name w1")
          from save_frame [OF sv, of count] obtain extra2 where
            f2: "nodePools w2 = nodePools w1" "nodes w2 = nodes w1"
                "\<forall>k v. configMaps w1 k = Some v \<longrightarrow> configMaps w2 k = Some v"
                "\<forall>k. k \<noteq> ConfigMapNamePrefix @ name \<longrightarrow> configMaps w2 k = configMaps w1 k"
            and q2: "requests w2 = requests w1 @ extra2" "SetSize name count \<notin> set extra2"
            by blast
          show ?thesis
          proof (cases r2)
            case (Some e)
            with run lst \<open>find _ _ = Some nodePool\<close> Inr ne d r1 sv have "w' = w2"
              by (simp add: GKEProvider_ScaleNodePool_def)
            with f1 q1 f2 q2 show ?thesis by (auto simp add: issued_def)
          next
            case r2: None
            obtain r3 w3 where ds:
              "(if autoscalingEnabled (Autoscaling nodePool)
                then disableAutoscaling env name w2 else (None, w2)) = (r3, w3)"
              by (cases "(if autoscalingEnabled (Autoscaling nodePool)
                then disableAutoscaling env name w2 else (None, w2))")
            from disable_busy [OF bd ds, of count] obtain extra3 where
              f3: "r3 = None" "nodePools w3 = nodePools w2" "nodes w3 = nodes w2"
                  "configMaps w3 = configMaps w2"
              and q3: "requests w3 = requests w2 @ extra3" "SetSize name count \<notin> set extra3"
              by blast
            obtain r4 w4 where up: "updateNodePool env name count w3 = (r4, w4)"
              by (cases "updateNodePool env name count w3")
            from update_busy [OF bu up] have
              f4: "r4 = None" "nodePools w4 = nodePools w3" "nodes w4 = nodes w3"
                  "configMaps w4 = configMaps w3" by simp_all
            from run lst \<open>find _ _ = Some nodePool\<close> Inr ne d r1 sv r2 ds f3 up f4
            have "r = None" "w' = w4"
              by (simp_all add: GKEProvider_ScaleNodePool_def)
            with f1 f2 f3 f4 show ?thesis by simp
          qed
        qed
      qed
    qed
  qed
qed

text \<open>
  C8, for the GKE provider, when the cloud API answers every request of the call with
  cluster busy. A restore leaves the live pools and the saved state as they are, and
  returns no error once it has sent a request. A scale-down leaves the live pools as they
  are and returns no error once it has sent the size request; of the saved state it keeps
  every record that exists, and the only record it may add is the one of this pool, which
  it writes before the request.
\<close>

theorem GKE_cluster_busy_swallowed:
  "(isClusterBusy (env AtRestoreAutoscaling) \<and> isClusterBusy (env AtRestoreSize)
      \<and> GKEProvider_RestoreNodePool env name w = (r, w')
    \<longrightarrow> nodePools w' = nodePools w \<and> configMaps w' = configMaps w
        \<and> (issued (requests w) (requests w') \<noteq> [] \<longrightarrow> r = None))
   \<and> (isClusterBusy (env AtUpdateNodePool) \<and> isClusterBusy (env AtDisableAutoscaling)
      \<and> GKEProvider_ScaleNodePool env name count w = (r, w')
    \<longrightarrow> nodePools w' = nodePools w
        \<and> (\<forall>k v. configMaps w k = Some v \<longrightarrow> configMaps w' k = Some v)
        \<and> (\<forall>k. k \<noteq> ConfigMapNamePrefix @ name \<longrightarrow> configMaps w' k = configMaps w k)
        \<and> (SetSize name count \<in> set (issued (requests w) (requests w')) \<longrightarrow> r = None))"
proof (intro conjI impI)
  assume h: "isClusterBusy (env AtRestoreAutoscaling) \<and> isClusterBusy (env AtRestoreSize)
      \<and> GKEProvider_RestoreNodePool env name w = (r, w')"
  then have b: "isClusterBusy (env AtRestoreAutoscaling)" "isClusterBusy (env AtRestoreSize)"
    and run: "GKEProvider_RestoreNodePool env name w = (r, w')" by simp_all
  from restore_busy [OF b run]
  show "nodePools w' = nodePools w" "configMaps w' = configMaps w" by simp_all
  assume "issued (requests w) (requests w') \<noteq> []"
  with restore_busy [OF b run] show "r = None" by simp
next
  assume h: "isClusterBusy (env AtUpdateNodePool) \<and> isClusterBusy (env AtDisableAutoscaling)
      \<and> GKEProvider_ScaleNodePool env name count w = (r, w')"
  then have b: "isClusterBusy (env AtUpdateNodePool)" "isClusterBusy (env AtDisableAutoscaling)"
    and run: "GKEProvider_ScaleNodePool env name count w = (r, w')" by simp_all
  from scale_busy [OF b run]
  show "nodePools w' = nodePools w"
    "\<forall>k v. configMaps w k = Some v \<longrightarrow> configMaps w' k = Some v"
    "\<forall>k. k \<noteq> ConfigMapNamePrefix @ name \<longrightarrow> configMaps w' k = configMaps w k"
    by simp_all
  assume "SetSize name count \<in> set (issued (requests w) (requests w'))"
  with scale_busy [OF b run] show "r = None" by simp
qed

theorem GKE_cluster_busy_swallowed_witness:
  "isClusterBusy (Some busy)
   \<and> GKEProvider_RestoreNodePool (calm(AtRestoreSize \<mapsto> busy, AtRestoreAutoscaling \<mapsto> busy))
         ''batch'' gke_scaled
       = (None, gke_scaled\<lparr>requests := [SetSize ''batch'' 2]\<rparr>)
   \<and> issued (requests gke_scaled) [SetSize ''batch'' 2] = [SetSize ''batch'' 2]
   \<and> GKEProvider_ScaleNodePool (calm(AtUpdateNodePool \<mapsto> busy, AtDisableAutoscaling \<mapsto> busy))
         ''batch'' 0 (gke_scaled\<lparr>nodes := nodes gke_sample\<rparr>)
       = (None, gke_scaled\<lparr>nodes := nodes gke_sample,
                            requests := [DrainNode ''n2'',
                                         CreateConfigMap ''bmw-saver-nodepool-batch''
                                           \<lparr>NodeCount = 0, SavedAutoscaling = None\<rparr>,
                                         SetSize ''batch'' 0]\<rparr>)
   \<and> configMaps (gke_scaled\<lparr>nodes := nodes gke_sample\<rparr>) ''bmw-saver-nodepool-batch''
       = Some (Encoded \<lparr>NodeCount = 2, SavedAutoscaling = None\<rparr>)"
  using GKE_cluster_busy_swallowed
    [where env = "calm(AtRestoreSize \<mapsto> busy, AtRestoreAutoscaling \<mapsto> busy)"
       and name = "''batch''" and w = gke_scaled and r = None
       and w' = "gke_scaled\<lparr>requests := [SetSize ''batch'' 2]\<rparr>", THEN conjunct1]
    GKE_cluster_busy_swallowed
    [where env = "calm(AtUpdateNodePool \<mapsto> busy, AtDisableAutoscaling \<mapsto> busy)"
       and name = "''batch''" and count = 0 and w = "gke_scaled\<lparr>nodes := nodes gke_sample\<rparr>"
       and r = None
       and w' = "gke_scaled\<lparr>nodes := nodes gke_sample,
                            requests := [DrainNode ''n2'',
                                         CreateConfigMap ''bmw-saver-nodepool-batch''
                                           \<lparr>NodeCount = 0, SavedAutoscaling = None\<rparr>,
                                         SetSize ''batch'' 0]\<rparr>", THEN conjunct2]
  by (simp add: eval_cloud)

text \<open>
  A scale-down whose size request is answered busy returns no error and has written the
  saved-state record of the pool. An EKS restore whose update is answered with resource in
  use returns the error.
\<close>

theorem cluster_busy_counterexample:
  "fst (GKEProvider_ScaleNodePool (calm(AtUpdateNodePool \<mapsto> busy)) ''batch'' 0 gke_sample) = None
   \<and> requests (snd (GKEProvider_ScaleNodePool (calm(AtUpdateNodePool \<mapsto> busy)) ''batch'' 0
                      gke_sample))
       = [DrainNode ''n2'',
          CreateConfigMap ''bmw-saver-nodepool-batch'' \<lparr>NodeCount = 2, SavedAutoscaling = None\<rparr>,
          SetSize ''batch'' 0]
   \<and> configMaps gke_sample ''bmw-saver-nodepool-batch'' = None
   \<and> configMaps (snd (GKEProvider_ScaleNodePool (calm(AtUpdateNodePool \<mapsto> busy)) ''batch'' 0
                        gke_sample)) ''bmw-saver-nodepool-batch''
       = Some (Encoded \<lparr>NodeCount = 2, SavedAutoscaling = None\<rparr>)
   \<and> AWSProvider_RestoreNodePool
         (calm(AwsUpdateNodegroupConfig InRestore \<mapsto> ResourceInUseException)) ''batch'' eks_scaled
       = (Some (Failed ''failed to restore node group''),
          eks_scaled\<lparr>eksClients := {''eu-west-1''},
                     awsRequests := [UpdateNodegroupConfig ''batch''
                       \<lparr>MinSize = Some 1, MaxSize = Some 3, DesiredSize = Some 2\<rparr>]\<rparr>)"
  by (simp add: eval_cloud)

section \<open>Properties of the scaling controller\<close>





end
